theory Spec2Isabelle
  imports Main "HOL-Library.AList"
begin

section \<open>Exceptions as values\<close>

text \<open>
  Every exception that can leave a function of \<^verbatim>\<open>moe_crawler.py\<close> is a value of
  \<open>error\<close>. \<open>CollaboratorError\<close> stands for whatever the blockchain side raises,
  \<open>StoreError\<close> for whatever the InfluxDB client raises; the others are the Python
  exceptions of the same name. \<open>NotModelled\<close> marks \<^verbatim>\<open>str.format\<close> syntax outside
  the fragment the crawler's template uses.
\<close>

datatype error =
    CollaboratorError string
  | StoreError
  | AttributeError
  | AssertionError
  | ValueError
  | KeyError string
  | OverflowError
  | OSError
  | NotModelled

definition and_then :: "error + 'a \<Rightarrow> ('a \<Rightarrow> error + 'b) \<Rightarrow> error + 'b" where
  "and_then r f = (case r of Inl e \<Rightarrow> Inl e | Inr v \<Rightarrow> f v)"

section \<open>Rendering values as \<^verbatim>\<open>str.format\<close> does\<close>

definition digit_char :: "nat \<Rightarrow> char" where
  "digit_char d = ''0123456789'' ! d"

function str_nat :: "nat \<Rightarrow> string" where
  "str_nat n = (if n < 10 then [digit_char n] else str_nat (n div 10) @ [digit_char (n mod 10)])"
  by pat_completeness auto
termination
  by (relation "measure id") auto

declare str_nat.simps [simp del]

text \<open>A Python \<^verbatim>\<open>int\<close> placed in a replacement field: its decimal digits, with a sign.\<close>

definition str_int :: "int \<Rightarrow> string" where
  "str_int i = (if i < 0 then CHR ''-'' # str_nat (nat (- i)) else str_nat (nat i))"

text \<open>
  \<^verbatim>\<open>template.format(**kw)\<close> for a template of literal text and \<^verbatim>\<open>{name}\<close> fields. The
  second argument is the field name read so far (\<open>None\<close> outside a field). The values of
  \<open>kw\<close> are already rendered. A missing name is Python's KeyError, a field left open or a
  brace inside a name its ValueError; escaped braces, positional fields, conversions and
  format specifications are answered with \<open>NotModelled\<close>.
\<close>

fun format_from :: "(string \<times> string) list \<Rightarrow> string option \<Rightarrow> string \<Rightarrow> error + string" where
  "format_from kw None [] = Inr []"
| "format_from kw (Some name) [] = Inl ValueError"
| "format_from kw None (c # cs) =
     (if c = CHR ''{'' then format_from kw (Some []) cs
      else if c = CHR ''}'' then Inl (case cs of [] \<Rightarrow> ValueError
                                        | d # ds \<Rightarrow> if d = CHR ''}'' then NotModelled else ValueError)
      else and_then (format_from kw None cs) (\<lambda>rest. Inr (c # rest)))"
| "format_from kw (Some name) (c # cs) =
     (if c = CHR ''}'' then
        (if name = [] \<or> list_all (\<lambda>x. x \<in> set ''0123456789'') name then Inl NotModelled
         else case map_of kw name of
                None \<Rightarrow> Inl (KeyError name)
              | Some v \<Rightarrow> and_then (format_from kw None cs) (\<lambda>rest. Inr (v @ rest)))
      else if c = CHR ''{'' then Inl (if name = [] then NotModelled else ValueError)
      else if c \<in> set ''!:.['' then Inl NotModelled
      else format_from kw (Some (name @ [c])) cs)"

definition format :: "string \<Rightarrow> (string \<times> string) list \<Rightarrow> error + string" where
  "format template kw = format_from kw None template"

section \<open>The blockchain side\<close>

text \<open>
  \<^verbatim>\<open>Moe\<close>, its staking agent and the token economics are not part of this file: the
  crawler only calls them. They are a record of answers, one field per call the crawler
  makes, each of which may raise. \<open>'f\<close> is the type of Python floats; the crawler never
  computes with one, it only places them in the template, which is \<open>float_str\<close>.

  \<^item> \<open>latest_block_timestamp\<close>: \<^verbatim>\<open>agent.blockchain.client.w3.eth.getBlock('latest').timestamp\<close>
  \<^item> \<open>abridged_nodes_dict\<close>: the keys of \<^verbatim>\<open>known_nodes.abridged_nodes_dict()\<close>, in
    iteration order
  \<^item> \<open>to_tokens\<close>: \<^verbatim>\<open>float(NU.from_nunits(n).to_tokens())\<close>
  \<^item> \<open>get_economics\<close>: \<^verbatim>\<open>TokenEconomicsFactory.get_economics(registry).seconds_per_period\<close>
  \<^item> \<open>stake_list\<close>: \<^verbatim>\<open>StakeList(checksum_address, registry)\<close> after \<^verbatim>\<open>refresh()\<close>, as
    \<open>(initial_period, terminal_period)\<close>
  \<^item> \<open>datetime_at_period\<close>: \<^verbatim>\<open>datetime_at_period(period, seconds_per_period).datetime().timestamp()\<close>
\<close>

record 'f moe =
  latest_block_timestamp :: "error + int"
  get_current_period :: "error + int"
  abridged_nodes_dict :: "error + string list"
  get_worker_from_staker :: "string \<Rightarrow> error + string"
  owned_tokens :: "string \<Rightarrow> error + int"
  get_locked_tokens :: "string \<Rightarrow> error + int"
  to_tokens :: "int \<Rightarrow> error + 'f"
  get_economics :: "error + int"
  stake_list :: "string \<Rightarrow> error + int \<times> int"
  datetime_at_period :: "int \<Rightarrow> int \<Rightarrow> error + 'f"
  get_last_active_period :: "string \<Rightarrow> error + int"
  get_all_locked_tokens :: "int \<Rightarrow> error + int"
  float_str :: "'f \<Rightarrow> string"

section \<open>The time-series store\<close>

record retention_policy =
  rp_name :: string
  rp_duration :: string
  rp_replication :: string
  rp_database :: string
  rp_default :: bool

text \<open>The requests the crawler sends through its \<^verbatim>\<open>InfluxDBClient\<close>.\<close>

datatype store_call =
    GetListDatabase
  | CreateDatabase string
  | CreateRetentionPolicy retention_policy
  | WritePoints "string list" string string nat string
  | Close

text \<open>
  The store is outside the repository. Its model keeps what the crawler can change or
  see: the databases and retention policies it holds, the points it has accepted, and
  every request it has received (\<open>calls\<close>). It records each creation it is asked for,
  so a repeated creation would show. How it answers is left open: \<open>refuses\<close> says which
  requests make the client raise, \<open>rejects\<close> which batches \<^verbatim>\<open>write_points\<close> reports as
  failed by returning False. A database is listed by its name: the entry
  \<^verbatim>\<open>{'name': n}\<close> of \<^verbatim>\<open>get_list_database()\<close> is the string \<open>n\<close>.
\<close>

record store =
  databases :: "string list"
  retention_policies :: "retention_policy list"
  points :: "string list"
  calls :: "store_call list"
  refuses :: "store_call \<Rightarrow> bool"
  rejects :: "string list \<Rightarrow> bool"

definition request :: "store_call \<Rightarrow> store \<Rightarrow> store" where
  "request c st = st\<lparr>calls := calls st @ [c]\<rparr>"

definition get_list_database :: "store \<Rightarrow> (error + string list) \<times> store" where
  "get_list_database st =
     (if refuses st GetListDatabase then (Inl StoreError, request GetListDatabase st)
      else (Inr (databases st), request GetListDatabase st))"

definition create_database :: "string \<Rightarrow> store \<Rightarrow> (error + unit) \<times> store" where
  "create_database n st =
     (if refuses st (CreateDatabase n) then (Inl StoreError, request (CreateDatabase n) st)
      else (Inr (), (request (CreateDatabase n) st)\<lparr>databases := databases st @ [n]\<rparr>))"

definition create_retention_policy :: "retention_policy \<Rightarrow> store \<Rightarrow> (error + unit) \<times> store" where
  "create_retention_policy p st =
     (if refuses st (CreateRetentionPolicy p)
      then (Inl StoreError, request (CreateRetentionPolicy p) st)
      else (Inr (), (request (CreateRetentionPolicy p) st)
                      \<lparr>retention_policies := retention_policies st @ [p]\<rparr>))"

definition write_points ::
  "string list \<Rightarrow> string \<Rightarrow> string \<Rightarrow> nat \<Rightarrow> string \<Rightarrow> store \<Rightarrow> (error + bool) \<times> store" where
  "write_points data database time_precision batch_size protocol st =
     (let c = WritePoints data database time_precision batch_size protocol in
      if refuses st c then (Inl StoreError, request c st)
      else if rejects st data then (Inr False, request c st)
      else (Inr True, (request c st)\<lparr>points := points st @ data\<rparr>))"

definition close :: "store \<Rightarrow> (error + unit) \<times> store" where
  "close st = (if refuses st Close then (Inl StoreError, request Close st)
               else (Inr (), request Close st))"

section \<open>Dates and times\<close>

text \<open>
  A \<^verbatim>\<open>datetime\<close> is its day number (\<^verbatim>\<open>date.toordinal()\<close>, day 1 is 0001-01-01) and the
  microseconds since that day's midnight. Python keeps dates between day 1 and
  \<open>MAXORDINAL\<close> (9999-12-31) and a \<^verbatim>\<open>timedelta\<close> within 999999999 days either way; beyond
  that, constructing the value raises OverflowError.
\<close>

record datetime =
  ordinal :: int
  microsecond :: int

definition MAXORDINAL :: int where
  "MAXORDINAL = 3652059"

definition timedelta :: "int \<Rightarrow> error + int" where
  "timedelta days =
     (if - 999999999 \<le> days \<and> days \<le> 999999999 then Inr days else Inl OverflowError)"

definition plus_days :: "datetime \<Rightarrow> int \<Rightarrow> error + datetime" where
  "plus_days dt delta =
     (if 0 < ordinal dt + delta \<and> ordinal dt + delta \<le> MAXORDINAL
      then Inr (dt\<lparr>ordinal := ordinal dt + delta\<rparr>) else Inl OverflowError)"

definition minus_days :: "datetime \<Rightarrow> int \<Rightarrow> error + datetime" where
  "minus_days dt delta = plus_days dt (- delta)"

text \<open>\<^verbatim>\<open>datetime(year=today.year, month=today.month, day=today.day, hour=0, ...)\<close>\<close>

definition midnight :: "datetime \<Rightarrow> datetime" where
  "midnight today = \<lparr>ordinal = ordinal today, microsecond = 0\<rparr>"

text \<open>
  \<^verbatim>\<open>datetime.utcfromtimestamp(t)\<close> for an \<^verbatim>\<open>int\<close> of seconds since 1970-01-01 (day
  719163), as CPython answers on 64-bit Linux: OverflowError when \<open>t\<close> does not fit the
  platform's \<^verbatim>\<open>time_t\<close>, OSError when the C library's \<^verbatim>\<open>gmtime\<close> cannot express the year,
  ValueError when the year is not one of 1 to 9999.
\<close>

definition utcfromtimestamp :: "int \<Rightarrow> error + datetime" where
  "utcfromtimestamp t =
     (if t < - 9223372036854775808 \<or> 9223372036854775808 \<le> t then Inl OverflowError
      else if t < - 67768040609740800 \<or> 67768036191676800 \<le> t then Inl OSError
      else (let day = 719163 + t div 86400 in
            if day < 1 \<or> MAXORDINAL < day then Inl ValueError
            else Inr \<lparr>ordinal = day, microsecond = (t mod 86400) * 1000000\<rparr>))"

text \<open>
  \<^verbatim>\<open>MayaDT(epoch=t)\<close> placed in an f-string. The constructor only keeps \<open>t\<close>; formatting
  calls \<^verbatim>\<open>MayaDT.__format__\<close>, which formats \<^verbatim>\<open>self.datetime()\<close>, and that is
  \<^verbatim>\<open>Datetime.utcfromtimestamp(self._epoch)\<close> with the UTC zone attached. The text that
  results is stood in for by the datetime it prints.
\<close>

definition MayaDT_format :: "int \<Rightarrow> error + datetime" where
  "MayaDT_format epoch = utcfromtimestamp epoch"

section \<open>The crawler\<close>

text \<open>
  \<^verbatim>\<open>twisted.internet.task.LoopingCall\<close> as far as the crawler relies on it: the
  \<open>running\<close> flag it reads, and for the last \<^verbatim>\<open>start(interval, now)\<close> the two arguments
  and whether \<^verbatim>\<open>_handle_errors\<close> has been added to the Deferred that \<^verbatim>\<open>start\<close> returned.
  Twisted's \<^verbatim>\<open>start\<close> asserts that the loop is not running and raises ValueError on a
  negative interval; its \<^verbatim>\<open>stop\<close> asserts that the loop is running.
\<close>

record looping_call =
  running :: bool
  interval :: "int option"
  now :: bool
  has_errback :: bool

definition new_looping_call :: looping_call where
  "new_looping_call = \<lparr>running = False, interval = None, now = False, has_errback = False\<rparr>"

definition lc_start :: "int \<Rightarrow> bool \<Rightarrow> looping_call \<Rightarrow> error + looping_call" where
  "lc_start i n lc =
     (if running lc then Inl AssertionError
      else if i < 0 then Inl ValueError
      else Inr \<lparr>running = True, interval = Some i, now = n, has_errback = False\<rparr>)"

definition lc_stop :: "looping_call \<Rightarrow> error + looping_call" where
  "lc_stop lc = (if running lc then Inr (lc\<lparr>running := False\<rparr>) else Inl AssertionError)"

record connection =
  host :: string
  port :: nat
  database :: string

datatype level = Info | Warn | Critical

datatype message =
    DatabaseNotFound string
  | DatabaseExists string
  | ProcessingNodes nat datetime int
  | UnableToWrite string datetime int
  | UnhandledErrorRestarting error
  | UnhandledError error
  | StartingMoeCrawler
  | StoppingMoeCrawler

text \<open>
  The fields of a \<^verbatim>\<open>MoeBlockchainCrawler\<close>, the lines it has logged, and the store its
  client talks to. A Python dict is an association list in insertion order, written with
  \<^const>\<open>AList.update\<close>.
\<close>

record crawler =
  refresh_rate :: int
  restart_on_error :: bool
  node_learning_task :: looping_call
  contract_learning_task :: looping_call
  client :: "connection option"
  snapshot :: "(string \<times> (int \<times> int) list) list"
  logged :: "(level \<times> message) list"
  influx :: store

definition DEFAULT_REFRESH_RATE :: int where
  "DEFAULT_REFRESH_RATE = 60"

definition DB_MEASUREMENT :: string where
  "DB_MEASUREMENT = ''moe_network_info''"

definition DB_LINE_PROTOCOL :: string where
  "DB_LINE_PROTOCOL = ''{measurement},staker_address={staker_address} '' @
                      ''worker_address=\"{worker_address}\",'' @
                      ''start_date={start_date},'' @
                      ''end_date={end_date},'' @
                      ''stake={stake},'' @
                      ''locked_stake={locked_stake},'' @
                      ''current_period={current_period}i,'' @
                      ''last_confirmed_period={last_confirmed_period}i '' @
                      ''{timestamp}''"

definition DB_NAME :: string where
  "DB_NAME = ''network''"

definition DB_RETENTION_POLICY_NAME :: string where
  "DB_RETENTION_POLICY_NAME = ''network_info_retention''"

definition DB_RETENTION_POLICY_PERIOD :: string where
  "DB_RETENTION_POLICY_PERIOD = ''5w''"

definition DB_RETENTION_POLICY_REPLICATION :: string where
  "DB_RETENTION_POLICY_REPLICATION = ''1''"

definition InfluxDBClient :: "string \<Rightarrow> nat \<Rightarrow> string \<Rightarrow> connection" where
  "InfluxDBClient h p d = \<lparr>host = h, port = p, database = d\<rparr>"

definition write_log :: "level \<Rightarrow> message \<Rightarrow> crawler \<Rightarrow> crawler" where
  "write_log l m s = s\<lparr>logged := logged s @ [(l, m)]\<rparr>"

text \<open>\<^verbatim>\<open>self._client.method(...)\<close>: AttributeError when \<^verbatim>\<open>_client\<close> is None.\<close>

definition via_client :: "(store \<Rightarrow> (error + 'a) \<times> store) \<Rightarrow> crawler \<Rightarrow> (error + 'a) \<times> crawler" where
  "via_client f s =
     (case client s of
        None \<Rightarrow> (Inl AttributeError, s)
      | Some c \<Rightarrow> (case f (influx s) of (r, st) \<Rightarrow> (r, s\<lparr>influx := st\<rparr>)))"

text \<open>Sequencing: an exception ends the function with the state reached so far.\<close>

definition then_do ::
  "(error + 'a) \<times> crawler \<Rightarrow> ('a \<Rightarrow> crawler \<Rightarrow> (error + 'b) \<times> crawler) \<Rightarrow> (error + 'b) \<times> crawler" where
  "then_do r f = (case r of (Inl e, s) \<Rightarrow> (Inl e, s) | (Inr v, s) \<Rightarrow> f v s)"

definition ensure_db_exists :: "crawler \<Rightarrow> (error + unit) \<times> crawler" where
  "ensure_db_exists s =
     then_do (via_client get_list_database s) (\<lambda>db_list s.
       let found_db = filter (\<lambda>db. db = DB_NAME) db_list in
       if length found_db = 0 then
         then_do (via_client (create_database DB_NAME)
                    (write_log Info (DatabaseNotFound DB_NAME) s)) (\<lambda>_ s.
           via_client (create_retention_policy
                         \<lparr>rp_name = DB_RETENTION_POLICY_NAME,
                          rp_duration = DB_RETENTION_POLICY_PERIOD,
                          rp_replication = DB_RETENTION_POLICY_REPLICATION,
                          rp_database = DB_NAME,
                          rp_default = True\<rparr>) s)
       else (Inr (), write_log Info (DatabaseExists DB_NAME) s))"

text \<open>
  \<^verbatim>\<open>__init__\<close>. The Moe character is passed to the sampling functions instead of being
  stored; the store the new client reaches is the argument \<open>st\<close>.
\<close>

definition init :: "int \<Rightarrow> bool \<Rightarrow> store \<Rightarrow> (error + unit) \<times> crawler" where
  "init rate restart st =
     ensure_db_exists
       \<lparr>refresh_rate = rate,
        restart_on_error = restart,
        node_learning_task = new_looping_call,
        contract_learning_task = new_looping_call,
        client = Some (InfluxDBClient ''localhost'' 8086 DB_NAME),
        snapshot = [],
        logged = [],
        influx = st\<rparr>"

subsection \<open>Contract sampling\<close>

text \<open>The dict comprehension of \<^verbatim>\<open>_learn_about_contracts\<close>, one call per day.\<close>

fun token_counter :: "(int \<Rightarrow> error + int) \<Rightarrow> int list \<Rightarrow> (int \<times> int) list \<Rightarrow> error + (int \<times> int) list" where
  "token_counter f [] acc = Inr acc"
| "token_counter f (day # days) acc =
     (case f day of
        Inl e \<Rightarrow> Inl e
      | Inr v \<Rightarrow> token_counter f days (AList.update day v acc))"

definition learn_about_contracts :: "'f moe \<Rightarrow> crawler \<Rightarrow> (error + unit) \<times> crawler" where
  "learn_about_contracts m s =
     (let period_range = [1..365] in
      case token_counter (get_all_locked_tokens m) period_range [] of
        Inl e \<Rightarrow> (Inl e, s)
      | Inr tc \<Rightarrow> (Inr (), s\<lparr>snapshot := AList.update ''future_locked_tokens'' tc (snapshot s)\<rparr>))"

subsection \<open>Node sampling\<close>

text \<open>The body of the loop over \<^verbatim>\<open>nodes_dict\<close>: one staker's record.\<close>

definition node_record :: "'f moe \<Rightarrow> int \<Rightarrow> int \<Rightarrow> string \<Rightarrow> error + string" where
  "node_record m block_time current_period staker_address =
     and_then (get_worker_from_staker m staker_address) (\<lambda>worker.
     and_then (owned_tokens m staker_address) (\<lambda>stake.
     and_then (to_tokens m stake) (\<lambda>staked_nu_tokens.
     and_then (get_locked_tokens m staker_address) (\<lambda>locked.
     and_then (to_tokens m locked) (\<lambda>locked_nu_tokens.
     and_then (get_economics m) (\<lambda>seconds_per_period.
     and_then (stake_list m staker_address) (\<lambda>stakes.
     and_then (datetime_at_period m (fst stakes) seconds_per_period) (\<lambda>start_date.
     and_then (datetime_at_period m (snd stakes) seconds_per_period) (\<lambda>end_date.
     and_then (get_last_active_period m staker_address) (\<lambda>last_confirmed_period.
       format DB_LINE_PROTOCOL
         [(''measurement'', DB_MEASUREMENT),
          (''staker_address'', staker_address),
          (''worker_address'', worker),
          (''start_date'', float_str m start_date),
          (''end_date'', float_str m end_date),
          (''stake'', float_str m staked_nu_tokens),
          (''locked_stake'', float_str m locked_nu_tokens),
          (''current_period'', str_int current_period),
          (''last_confirmed_period'', str_int last_confirmed_period),
          (''timestamp'', str_int block_time)]))))))))))"

text \<open>The loop: \<open>data\<close> grows by one record per staker; the first exception ends it.\<close>

fun node_records :: "'f moe \<Rightarrow> int \<Rightarrow> int \<Rightarrow> string list \<Rightarrow> string list \<Rightarrow> error + string list" where
  "node_records m block_time current_period [] data = Inr data"
| "node_records m block_time current_period (staker_address # rest) data =
     (case node_record m block_time current_period staker_address of
        Inl e \<Rightarrow> Inl e
      | Inr r \<Rightarrow> node_records m block_time current_period rest (data @ [r]))"

text \<open>
  \<^verbatim>\<open>_learn_about_nodes\<close>. Both log lines are f-strings that format
  \<^verbatim>\<open>MayaDT(epoch=block_time)\<close>; Python builds the text before it calls the logger, so a
  block time that cannot be formatted ends the function there: before the loop for the
  first line, after the write for the warning.
\<close>

definition learn_about_nodes :: "'f moe \<Rightarrow> crawler \<Rightarrow> (error + unit) \<times> crawler" where
  "learn_about_nodes m s =
     (case latest_block_timestamp m of
        Inl e \<Rightarrow> (Inl e, s)
      | Inr block_time \<Rightarrow>
         (case get_current_period m of
            Inl e \<Rightarrow> (Inl e, s)
          | Inr current_period \<Rightarrow>
             (case abridged_nodes_dict m of
                Inl e \<Rightarrow> (Inl e, s)
              | Inr nodes_dict \<Rightarrow>
                 (case MayaDT_format block_time of
                    Inl e \<Rightarrow> (Inl e, s)
                  | Inr shown \<Rightarrow>
                     (let s = write_log Info
                                (ProcessingNodes (length nodes_dict) shown current_period) s
                      in case node_records m block_time current_period nodes_dict [] of
                           Inl e \<Rightarrow> (Inl e, s)
                         | Inr data \<Rightarrow>
                             then_do (via_client (write_points data DB_NAME ''s'' 10000 ''line'') s)
                               (\<lambda>written s.
                                  if \<not> written
                                  then (case MayaDT_format block_time of
                                          Inl e \<Rightarrow> (Inl e, s)
                                        | Inr shown \<Rightarrow>
                                            (Inr (), write_log Warn
                                                       (UnableToWrite DB_NAME shown current_period) s))
                                  else (Inr (), s)))))))"

subsection \<open>Life cycle and failure policy\<close>

definition is_running :: "crawler \<Rightarrow> bool" where
  "is_running s = (running (node_learning_task s) \<and> running (contract_learning_task s))"

text \<open>
  \<^verbatim>\<open>start\<close>. The two \<^verbatim>\<open>LoopingCall.start(interval, now=True)\<close> requests are made in the
  source's order, then \<^verbatim>\<open>_handle_errors\<close> is added to both Deferreds. What such a request
  does to the loop is \<open>lc_start\<close>. The calls of the task functions are steps of their
  own, \<open>node_task_call\<close> and \<open>contract_task_call\<close> below; this holds for the first call
  too, which Twisted makes on \<^verbatim>\<open>now=True\<close> before \<^verbatim>\<open>LoopingCall.start\<close> returns, and which
  the loop's \<open>now\<close> field records as due. The state \<open>start\<close> returns is therefore the one
  before those first calls: what they log, write or raise is not in it.
\<close>

definition start :: "crawler \<Rightarrow> (error + unit) \<times> crawler" where
  "start s =
     (if \<not> is_running s then
        (let s = write_log Info StartingMoeCrawler s;
             s = (if client s = None
                  then s\<lparr>client := Some (InfluxDBClient ''localhost'' 8086 DB_NAME)\<rparr> else s);
             offset = 2
         in case lc_start (refresh_rate s) True (node_learning_task s) of
              Inl e \<Rightarrow> (Inl e, s)
            | Inr node_task \<Rightarrow>
               (let s = s\<lparr>node_learning_task := node_task\<rparr>
                in case lc_start (refresh_rate s - offset) True (contract_learning_task s) of
                     Inl e \<Rightarrow> (Inl e, s)
                   | Inr contract_task \<Rightarrow>
                       (Inr (), s\<lparr>node_learning_task := node_task\<lparr>has_errback := True\<rparr>,
                                  contract_learning_task := contract_task\<lparr>has_errback := True\<rparr>\<rparr>)))
      else (Inr (), s))"

definition handle_errors :: "error \<Rightarrow> crawler \<Rightarrow> (error + unit) \<times> crawler" where
  "handle_errors failure s =
     (if restart_on_error s then
        let s = write_log Warn (UnhandledErrorRestarting failure) s in
        if \<not> running (node_learning_task s) then start s else (Inr (), s)
      else (Inr (), write_log Critical (UnhandledError failure) s))"

definition stop :: "crawler \<Rightarrow> (error + unit) \<times> crawler" where
  "stop s =
     (if is_running s then
        then_do (via_client close (write_log Info StoppingMoeCrawler s)) (\<lambda>_ s.
          (let s = s\<lparr>client := None\<rparr>
           in case lc_stop (node_learning_task s) of
                Inl e \<Rightarrow> (Inl e, s)
              | Inr node_task \<Rightarrow>
                 (let s = s\<lparr>node_learning_task := node_task\<rparr>
                  in case lc_stop (contract_learning_task s) of
                       Inl e \<Rightarrow> (Inl e, s)
                     | Inr contract_task \<Rightarrow>
                         (Inr (), s\<lparr>contract_learning_task := contract_task\<rparr>))))
      else (Inr (), s))"

text \<open>
  The task boundary: what a \<^verbatim>\<open>LoopingCall\<close> does when the reactor calls its function. An
  exception stops that loop and fails its Deferred, which calls \<^verbatim>\<open>_handle_errors\<close> if it
  was added; an exception nobody handles stays in the Deferred and is the first
  component of the result.
\<close>

definition task_failed ::
  "error \<Rightarrow> looping_call \<Rightarrow> crawler \<Rightarrow> error option \<times> crawler" where
  "task_failed e lc s =
     (if has_errback lc
      then (case handle_errors e s of (Inl e', s') \<Rightarrow> (Some e', s') | (Inr _, s') \<Rightarrow> (None, s'))
      else (Some e, s))"

definition node_task_call :: "'f moe \<Rightarrow> crawler \<Rightarrow> error option \<times> crawler" where
  "node_task_call m s =
     (case learn_about_nodes m s of
        (Inr _, s') \<Rightarrow> (None, s')
      | (Inl e, s') \<Rightarrow>
          task_failed e (node_learning_task s')
            (s'\<lparr>node_learning_task := (node_learning_task s')\<lparr>running := False, has_errback := False\<rparr>\<rparr>))"

definition contract_task_call :: "'f moe \<Rightarrow> crawler \<Rightarrow> error option \<times> crawler" where
  "contract_task_call m s =
     (case learn_about_contracts m s of
        (Inr _, s') \<Rightarrow> (None, s')
      | (Inl e, s') \<Rightarrow>
          task_failed e (contract_learning_task s')
            (s'\<lparr>contract_learning_task :=
                  (contract_learning_task s')\<lparr>running := False, has_errback := False\<rparr>\<rparr>))"

section \<open>The historical query client\<close>

text \<open>
  A point of a query result: its \<^verbatim>\<open>'time'\<close>, as the store prints it, and its other
  columns, each a number or None. \<open>truthy\<close> is Python's truth test on such a value, as in
  \<^verbatim>\<open>if locked_stake:\<close>.
\<close>

record 'v point =
  time :: string
  columns :: "(string \<times> 'v option) list"

fun truthy :: "'v::zero option \<Rightarrow> bool" where
  "truthy None = False"
| "truthy (Some v) = (v \<noteq> 0)"

definition getitem :: "(string \<times> 'a) list \<Rightarrow> string \<Rightarrow> error + 'a" where
  "getitem d k = (case map_of d k of None \<Rightarrow> Inl (KeyError k) | Some v \<Rightarrow> Inr v)"

text \<open>
  What a \<^verbatim>\<open>MoeCrawlerDBClient\<close> depends on: the clock, the store's answer to a query
  (\<^verbatim>\<open>list(client.query(q).get_points())\<close>), and the two conversions of \<^verbatim>\<open>MayaDT\<close>,
  \<^verbatim>\<open>MayaDT.from_datetime(d).rfc3339()\<close> and \<^verbatim>\<open>MayaDT.from_rfc3339(t).datetime()\<close>.
\<close>

record 'v db_client =
  utcnow :: datetime
  rfc3339 :: "datetime \<Rightarrow> string"
  from_rfc3339 :: "string \<Rightarrow> error + datetime"
  query :: "string \<Rightarrow> error + 'v point list"

text \<open>
  The first lines of both query functions: \<^verbatim>\<open>range_begin\<close>, and the
  \<^verbatim>\<open>range_end + timedelta(days=1)\<close> that the query text uses.
\<close>

definition query_range :: "'v db_client \<Rightarrow> int \<Rightarrow> error + datetime \<times> datetime" where
  "query_range env days =
     (let today = utcnow env;
          range_end = midnight today
      in and_then (timedelta (days - 1)) (\<lambda>delta.
         and_then (minus_days range_end delta) (\<lambda>range_begin.
         and_then (timedelta 1) (\<lambda>one_day.
         and_then (plus_days range_end one_day) (\<lambda>range_end_next.
           Inr (range_begin, range_end_next))))))"

definition locked_tokens_query :: "string \<Rightarrow> string \<Rightarrow> string" where
  "locked_tokens_query range_begin range_end_next =
     ''SELECT SUM(locked_stake) '' @
     ''FROM ('' @
     ''SELECT staker_address, current_period, '' @
     ''LAST(locked_stake) '' @
     ''AS locked_stake '' @
     ''FROM moe_network_info '' @
     ''WHERE time >= '' @ [CHR 0x27] @ range_begin @ [CHR 0x27] @ '' '' @
     ''AND '' @
     ''time < '' @ [CHR 0x27] @ range_end_next @ [CHR 0x27] @ '' '' @
     ''GROUP BY staker_address, time(1d)'' @
     '') '' @
     ''GROUP BY time(1d)''"

definition num_stakers_query :: "string \<Rightarrow> string \<Rightarrow> string" where
  "num_stakers_query range_begin range_end_next =
     ''SELECT COUNT(staker_address) FROM '' @
     ''('' @
     ''SELECT staker_address, LAST(locked_stake)'' @
     ''FROM moe_network_info WHERE '' @
     ''time >= '' @ [CHR 0x27] @ range_begin @ [CHR 0x27] @ '' AND '' @
     ''time < '' @ [CHR 0x27] @ range_end_next @ [CHR 0x27] @ '' '' @
     ''GROUP BY staker_address, time(1d)'' @
     '') '' @
     ''GROUP BY time(1d)''"

text \<open>
  The loop that fills the returned \<^verbatim>\<open>OrderedDict\<close>, the same in both functions but for
  the column it reads (\<^verbatim>\<open>'sum'\<close> or \<^verbatim>\<open>'count'\<close>).
\<close>

fun fill_dict ::
  "'v::zero db_client \<Rightarrow> string \<Rightarrow> 'v point list \<Rightarrow> (datetime \<times> 'v) list
     \<Rightarrow> error + (datetime \<times> 'v) list" where
  "fill_dict env column [] d = Inr d"
| "fill_dict env column (r # results) d =
     (case getitem (columns r) column of
        Inl e \<Rightarrow> Inl e
      | Inr locked_stake \<Rightarrow>
         (if truthy locked_stake then
            (case from_rfc3339 env (time r) of
               Inl e \<Rightarrow> Inl e
             | Inr day \<Rightarrow> fill_dict env column results (AList.update day (the locked_stake) d))
          else fill_dict env column results d))"

definition get_historical_locked_tokens_over_range ::
  "'v::zero db_client \<Rightarrow> int \<Rightarrow> error + (datetime \<times> 'v) list" where
  "get_historical_locked_tokens_over_range env days =
     and_then (query_range env days) (\<lambda>(range_begin, range_end_next).
     and_then (query env (locked_tokens_query (rfc3339 env range_begin)
                                              (rfc3339 env range_end_next))) (\<lambda>results.
       fill_dict env ''sum'' results []))"

definition get_historical_num_stakers_over_range ::
  "'v::zero db_client \<Rightarrow> int \<Rightarrow> error + (datetime \<times> 'v) list" where
  "get_historical_num_stakers_over_range env days =
     and_then (query_range env days) (\<lambda>(range_begin, range_end_next).
     and_then (query env (num_stakers_query (rfc3339 env range_begin)
                                            (rfc3339 env range_end_next))) (\<lambda>results.
       fill_dict env ''count'' results []))"

section \<open>The specification's notions\<close>

text \<open>
  The ContractSnapshot of the specification: the mapping from each period 1 to 365 to the
  aggregate locked tokens the blockchain side reports for it.
\<close>

definition contract_snapshot :: "'f moe \<Rightarrow> (int \<times> int) list" where
  "contract_snapshot m = map (\<lambda>p. (p, projr (get_all_locked_tokens m p))) [1..365]"

text \<open>
  The wire format of the specification, section 6: one record of measurement
  \<^verbatim>\<open>moe_network_info\<close> with the tag \<^verbatim>\<open>staker_address\<close>, the fields \<^verbatim>\<open>worker_address\<close>
  (quoted), \<^verbatim>\<open>start_date\<close>, \<^verbatim>\<open>end_date\<close>, \<^verbatim>\<open>stake\<close> and \<^verbatim>\<open>locked_stake\<close>, the integer
  fields \<^verbatim>\<open>current_period\<close> and \<^verbatim>\<open>last_confirmed_period\<close> with the suffix \<^verbatim>\<open>i\<close>, and the
  timestamp in seconds. The float fields are given as printed.
\<close>

definition line_protocol_record ::
  "string \<Rightarrow> string \<Rightarrow> string \<Rightarrow> string \<Rightarrow> string \<Rightarrow> string \<Rightarrow> int \<Rightarrow> int \<Rightarrow> int \<Rightarrow> string" where
  "line_protocol_record staker worker start_date end_date stake locked_stake current_period
       last_confirmed_period unix_seconds =
     ''moe_network_info,staker_address='' @ staker @
     '' worker_address=\"'' @ worker @ ''\",start_date='' @ start_date @
     '',end_date='' @ end_date @ '',stake='' @ stake @ '',locked_stake='' @ locked_stake @
     '',current_period='' @ str_int current_period @ ''i,last_confirmed_period='' @
     str_int last_confirmed_period @ ''i '' @ str_int unix_seconds"

text \<open>The sample time a record carries: what follows its last space.\<close>

definition sample_time :: "string \<Rightarrow> string" where
  "sample_time r = rev (takeWhile (\<lambda>c. c \<noteq> CHR '' '') (rev r))"

text \<open>
  Some call that the node-sampling cycle makes to the blockchain side raises: one of the
  three calls before the loop, or for some staker one of the calls of the loop body, each
  with the arguments the earlier answers give it.
\<close>

definition staker_call_raises :: "'f moe \<Rightarrow> string \<Rightarrow> bool" where
  "staker_call_raises m a =
     (isl (get_worker_from_staker m a)
      \<or> isl (and_then (owned_tokens m a) (to_tokens m))
      \<or> isl (and_then (get_locked_tokens m a) (to_tokens m))
      \<or> isl (get_economics m)
      \<or> isl (and_then (get_economics m) (\<lambda>seconds_per_period.
              and_then (stake_list m a) (\<lambda>stakes.
              and_then (datetime_at_period m (fst stakes) seconds_per_period) (\<lambda>start_date.
                datetime_at_period m (snd stakes) seconds_per_period))))
      \<or> isl (get_last_active_period m a))"

definition collaborator_raises :: "'f moe \<Rightarrow> bool" where
  "collaborator_raises m =
     (isl (latest_block_timestamp m)
      \<or> isl (get_current_period m)
      \<or> (case abridged_nodes_dict m of
            Inl e \<Rightarrow> True
          | Inr nodes_dict \<Rightarrow> list_ex (staker_call_raises m) nodes_dict))"

text \<open>
  The record the specification expects for one staker, from the answers of the
  blockchain side (\<open>projr\<close> reads an answer that did not raise).
\<close>

definition expected_record :: "'f moe \<Rightarrow> int \<Rightarrow> int \<Rightarrow> string \<Rightarrow> string" where
  "expected_record m block_time current_period a =
     (let seconds_per_period = projr (get_economics m);
          stakes = projr (stake_list m a)
      in line_protocol_record a
           (projr (get_worker_from_staker m a))
           (float_str m (projr (datetime_at_period m (fst stakes) seconds_per_period)))
           (float_str m (projr (datetime_at_period m (snd stakes) seconds_per_period)))
           (float_str m (projr (to_tokens m (projr (owned_tokens m a)))))
           (float_str m (projr (to_tokens m (projr (get_locked_tokens m a)))))
           current_period
           (projr (get_last_active_period m a))
           block_time)"

text \<open>
  The retention policy of the specification's database bootstrap: name
  \<^verbatim>\<open>network_info_retention\<close>, duration \<^verbatim>\<open>5w\<close>, replication \<^verbatim>\<open>1\<close>, on the database
  \<^verbatim>\<open>network\<close>, marked default.
\<close>

definition bootstrap_policy :: retention_policy where
  "bootstrap_policy =
     \<lparr>rp_name = ''network_info_retention'', rp_duration = ''5w'', rp_replication = ''1'',
      rp_database = ''network'', rp_default = True\<rparr>"

text \<open>
  The day a point of a query result stands for, and whether a point makes its day count
  in the series read from \<open>column\<close>: its aggregate is neither null nor zero.
\<close>

definition day_of :: "'v db_client \<Rightarrow> 'v point \<Rightarrow> error + datetime" where
  "day_of env r = from_rfc3339 env (time r)"

definition counted :: "'v::zero db_client \<Rightarrow> string \<Rightarrow> 'v point \<Rightarrow> datetime \<Rightarrow> bool" where
  "counted env column r day =
     (case getitem (columns r) column of
        Inl e \<Rightarrow> False
      | Inr v \<Rightarrow> v \<noteq> None \<and> v \<noteq> Some 0 \<and> day_of env r = Inr day)"

text \<open>
  The two-level aggregation of the specification, section 6: the inner query takes, per
  participant and per day within the half-open time range, the last value; the outer
  query aggregates those per day.
\<close>

definition quoted :: "string \<Rightarrow> string" where
  "quoted t = [CHR 0x27] @ t @ [CHR 0x27]"

definition last_per_participant_per_day :: "string \<Rightarrow> string \<Rightarrow> string \<Rightarrow> string" where
  "last_per_participant_per_day select_list range_begin range_end =
     ''SELECT '' @ select_list @ '' FROM moe_network_info WHERE time >= '' @ quoted range_begin @
     '' AND time < '' @ quoted range_end @ '' GROUP BY staker_address, time(1d)''"

definition per_day :: "string \<Rightarrow> string \<Rightarrow> string" where
  "per_day aggregate inner = ''SELECT '' @ aggregate @ '' FROM ('' @ inner @ '') GROUP BY time(1d)''"

section \<open>Example inputs\<close>

definition example_store :: store where
  "example_store =
     \<lparr>databases = [''_internal'', ''network''],
      retention_policies = [],
      points = [],
      calls = [],
      refuses = (\<lambda>c. False),
      rejects = (\<lambda>d. False)\<rparr>"

text \<open>A crawler that has been started with the default refresh rate.\<close>

definition example_crawler :: crawler where
  "example_crawler =
     \<lparr>refresh_rate = 60,
      restart_on_error = True,
      node_learning_task = \<lparr>running = True, interval = Some 60, now = True, has_errback = True\<rparr>,
      contract_learning_task = \<lparr>running = True, interval = Some 58, now = True, has_errback = True\<rparr>,
      client = Some (InfluxDBClient ''localhost'' 8086 DB_NAME),
      snapshot = [],
      logged = [],
      influx = example_store\<rparr>"

text \<open>
  A blockchain side with two known stakers that answers every call. Floats are stood in
  for by integers, printed with a trailing \<^verbatim>\<open>.0\<close>.
\<close>

definition example_moe :: "int moe" where
  "example_moe =
     \<lparr>latest_block_timestamp = Inr 1577836800,
      get_current_period = Inr 18262,
      abridged_nodes_dict = Inr [''0xA'', ''0xB''],
      get_worker_from_staker = (\<lambda>a. Inr (a @ ''w'')),
      owned_tokens = (\<lambda>a. Inr 15000),
      get_locked_tokens = (\<lambda>a. Inr (if a = ''0xB'' then 0 else 15000)),
      to_tokens = (\<lambda>n. Inr n),
      get_economics = Inr 86400,
      stake_list = (\<lambda>a. Inr (18000, 18365)),
      datetime_at_period = (\<lambda>p spp. Inr (p * spp)),
      get_last_active_period = (\<lambda>a. Inr 18261),
      get_all_locked_tokens = (\<lambda>p. Inr (1000 * p)),
      float_str = (\<lambda>x. str_int x @ ''.0'')\<rparr>"

text \<open>The same, except that the aggregate locked tokens cannot be read.\<close>

definition unreachable_contract_moe :: "int moe" where
  "unreachable_contract_moe =
     example_moe\<lparr>get_all_locked_tokens := (\<lambda>p. Inl (CollaboratorError ''connection lost''))\<rparr>"

text \<open>The locked tokens of the second staker cannot be read.\<close>

definition failing_staker_moe :: "int moe" where
  "failing_staker_moe =
     example_moe\<lparr>get_locked_tokens :=
       (\<lambda>a. if a = ''0xB'' then Inl (CollaboratorError ''timeout'') else Inr 15000)\<rparr>"

text \<open>
  The same, except that the latest block is stamped with the first second of the
  year 10000.
\<close>

definition far_future_moe :: "int moe" where
  "far_future_moe = example_moe\<lparr>latest_block_timestamp := Inr 253402300800\<rparr>"



text \<open>A crawler as \<^verbatim>\<open>__init__\<close> builds it, before a store in which \<^verbatim>\<open>network\<close> is absent.\<close>

definition fresh_crawler :: crawler where
  "fresh_crawler =
     example_crawler\<lparr>node_learning_task := new_looping_call,
                      contract_learning_task := new_looping_call,
                      influx := example_store\<lparr>databases := [''_internal'']\<rparr>\<rparr>"

text \<open>
  The same before a store that creates the database but answers the creation of a
  retention policy with an error; and that crawler after its schema bootstrap has
  failed there, when the store has come to accept every request.
\<close>

definition policy_refusing_crawler :: crawler where
  "policy_refusing_crawler =
     fresh_crawler\<lparr>influx := example_store
       \<lparr>databases := [''_internal''],
        refuses := (\<lambda>c. case c of CreateRetentionPolicy p \<Rightarrow> True | _ \<Rightarrow> False)\<rparr>\<rparr>"

definition policy_missing_crawler :: crawler where
  "policy_missing_crawler =
     fresh_crawler
       \<lparr>logged := [(Info, DatabaseNotFound ''network'')],
        influx := example_store
          \<lparr>databases := [''_internal'', ''network''],
           calls := [GetListDatabase, CreateDatabase ''network'',
                     CreateRetentionPolicy
                       \<lparr>rp_name = ''network_info_retention'', rp_duration = ''5w'',
                        rp_replication = ''1'', rp_database = ''network'',
                        rp_default = True\<rparr>]\<rparr>\<rparr>"

text \<open>
  The running crawler after its contract-sampling task has failed, and after its
  node-sampling task has failed: Twisted has stopped the one loop, the other still runs.
\<close>

definition contract_stopped_crawler :: crawler where
  "contract_stopped_crawler =
     example_crawler\<lparr>contract_learning_task :=
       \<lparr>running = False, interval = Some 58, now = True, has_errback = False\<rparr>\<rparr>"

definition node_stopped_crawler :: crawler where
  "node_stopped_crawler =
     example_crawler\<lparr>node_learning_task :=
       \<lparr>running = False, interval = Some 60, now = True, has_errback = False\<rparr>\<rparr>"

text \<open>
  A store that has points on three days, read on day 739924 (2026-11-04). On the second
  day nothing was sampled; on the third one staker was sampled, with nothing locked.
  Times are printed as day numbers.
\<close>

definition example_sum_points :: "int point list" where
  "example_sum_points =
     [\<lparr>time = ''739922'', columns = [(''sum'', Some 30000)]\<rparr>,
      \<lparr>time = ''739923'', columns = [(''sum'', None)]\<rparr>,
      \<lparr>time = ''739924'', columns = [(''sum'', Some 0)]\<rparr>]"

definition example_count_points :: "int point list" where
  "example_count_points =
     [\<lparr>time = ''739922'', columns = [(''count'', Some 2)]\<rparr>,
      \<lparr>time = ''739923'', columns = [(''count'', Some 0)]\<rparr>,
      \<lparr>time = ''739924'', columns = [(''count'', Some 1)]\<rparr>]"

definition example_db :: "int db_client" where
  "example_db =
     \<lparr>utcnow = \<lparr>ordinal = 739924, microsecond = 36000000000\<rparr>,
      rfc3339 = (\<lambda>d. str_int (ordinal d)),
      from_rfc3339 = (\<lambda>t. case map_of [(''739922'', \<lparr>ordinal = 739922, microsecond = 0\<rparr>),
                                        (''739923'', \<lparr>ordinal = 739923, microsecond = 0\<rparr>),
                                        (''739924'', \<lparr>ordinal = 739924, microsecond = 0\<rparr>)] t of
                             None \<Rightarrow> Inl ValueError
                           | Some d \<Rightarrow> Inr d),
      query = (\<lambda>q. if take 10 q = ''SELECT SUM'' then Inr example_sum_points
                    else Inr example_count_points)\<rparr>"

section \<open>Auxiliary facts\<close>

lemma and_then_simps [simp]:
  "and_then (Inl e) f = Inl e"
  "and_then (Inr v) f = f v"
  by (simp_all add: and_then_def)

lemma update_fresh: "k \<notin> fst ` set al \<Longrightarrow> AList.update k v al = al @ [(k, v)]"
  by (induction al) auto

subsection \<open>The dict comprehension\<close>

lemma token_counter_ok:
  "\<forall>p\<in>set ds. \<not> isl (f p) \<Longrightarrow> distinct ds \<Longrightarrow> set ds \<inter> fst ` set acc = {} \<Longrightarrow>
   token_counter f ds acc = Inr (acc @ map (\<lambda>p. (p, projr (f p))) ds)"
proof (induction ds arbitrary: acc)
  case Nil
  then show ?case by simp
next
  case (Cons d ds)
  from Cons.prems obtain v where v: "f d = Inr v"
    by (cases "f d") auto
  have fresh: "d \<notin> fst ` set acc"
    using Cons.prems(3) by auto
  have "token_counter f ds (acc @ [(d, v)]) = Inr ((acc @ [(d, v)]) @ map (\<lambda>p. (p, projr (f p))) ds)"
    using Cons.prems by (intro Cons.IH) auto
  then show ?case
    using v fresh by (simp add: update_fresh)
qed

lemma token_counter_raises:
  "p \<in> set ds \<Longrightarrow> isl (f p) \<Longrightarrow> isl (token_counter f ds acc)"
  by (induction ds arbitrary: acc) (auto split: sum.splits)

lemma learn_about_contracts_ok:
  assumes "\<forall>p\<in>{1..365}. \<not> isl (get_all_locked_tokens m p)"
  shows "learn_about_contracts m s =
           (Inr (), s\<lparr>snapshot := AList.update ''future_locked_tokens'' (contract_snapshot m)
                                    (snapshot s)\<rparr>)"
proof -
  have "token_counter (get_all_locked_tokens m) [1..365] [] = Inr ([] @ contract_snapshot m)"
    unfolding contract_snapshot_def using assms by (intro token_counter_ok) auto
  then show ?thesis
    by (simp add: learn_about_contracts_def)
qed

lemma learn_about_contracts_raises:
  assumes "p \<in> {1..365}" "isl (get_all_locked_tokens m p)"
  shows "\<exists>e. learn_about_contracts m s = (Inl e, s)"
proof -
  have "isl (token_counter (get_all_locked_tokens m) [1..365] [])"
    using assms by (intro token_counter_raises [of p]) auto
  then show ?thesis
    by (auto simp: learn_about_contracts_def split: sum.splits)
qed

lemma contract_snapshot_keys: "map fst (contract_snapshot m) = [1..365]"
  by (simp add: contract_snapshot_def comp_def)

lemma contract_snapshot_value:
  "p \<in> {1..365} \<Longrightarrow> map_of (contract_snapshot m) p = Some (projr (get_all_locked_tokens m p))"
  by (simp add: contract_snapshot_def map_of_map_restrict)

subsection \<open>Stopping\<close>

lemma stop_snapshot: "snapshot (snd (stop s)) = snapshot s"
  by (auto simp: stop_def then_do_def via_client_def write_log_def close_def request_def
      lc_stop_def Let_def split: option.splits sum.splits prod.splits if_splits)

lemma stop_running:
  assumes "is_running s" "client s = Some c" "\<not> refuses (influx s) Close"
  shows "stop s =
           (Inr (), s\<lparr>logged := logged s @ [(Info, StoppingMoeCrawler)],
                      influx := (influx s)\<lparr>calls := calls (influx s) @ [Close]\<rparr>,
                      client := None,
                      node_learning_task := (node_learning_task s)\<lparr>running := False\<rparr>,
                      contract_learning_task := (contract_learning_task s)\<lparr>running := False\<rparr>\<rparr>)"
  using assms
  by (simp add: stop_def then_do_def via_client_def write_log_def close_def request_def
      lc_stop_def is_running_def Let_def)

section \<open>Contract sampling replaces the snapshot as a whole\<close>

text \<open>
  Claim C6 says that every execution of the contract-sampling cycle stores a complete
  snapshot. An execution in which a call of \<^verbatim>\<open>get_all_locked_tokens\<close> raises stores
  nothing: here the blockchain side cannot be reached, the cycle ends with that
  exception, and the crawler, which had no snapshot yet, still has none.
\<close>

theorem contract_cycle_raising_stores_nothing:
  "learn_about_contracts unreachable_contract_moe example_crawler =
     (Inl (CollaboratorError ''connection lost''), example_crawler)
   \<and> map_of (snapshot (snd (learn_about_contracts unreachable_contract_moe example_crawler)))
        ''future_locked_tokens'' = None"
proof -
  have "[1..365] = 1 # [2..365]"
    by (simp add: upto_rec1)
  then have "learn_about_contracts unreachable_contract_moe example_crawler =
               (Inl (CollaboratorError ''connection lost''), example_crawler)"
    by (simp add: learn_about_contracts_def unreachable_contract_moe_def example_moe_def)
  then show ?thesis
    by (simp add: example_crawler_def)
qed

text \<open>
  Claim C6, amended. An execution of \<^verbatim>\<open>_learn_about_contracts\<close> in which none of the 365
  calls raises stores under \<^verbatim>\<open>'future_locked_tokens'\<close> the mapping whose keys are exactly
  the periods 1 to 365, in that order, and whose value at each period is the aggregate
  locked tokens reported for it; the mapping is built before it is stored and replaces
  whatever was stored before. An execution in which a call raises ends with that
  exception and leaves the crawler, its snapshot included, as it was. So after any
  execution the snapshot is either the one from before or the new complete one.
\<close>

theorem contract_cycle_stores_complete_snapshot:
  "((\<forall>p\<in>{1..365}. \<not> isl (get_all_locked_tokens m p)) \<longrightarrow>
      learn_about_contracts m s =
        (Inr (), s\<lparr>snapshot := AList.update ''future_locked_tokens'' (contract_snapshot m)
                                 (snapshot s)\<rparr>)
      \<and> map_of (snapshot (snd (learn_about_contracts m s))) ''future_locked_tokens''
          = Some (contract_snapshot m))
   \<and> ((\<exists>p\<in>{1..365}. isl (get_all_locked_tokens m p)) \<longrightarrow>
        (\<exists>e. learn_about_contracts m s = (Inl e, s)))
   \<and> (snapshot (snd (learn_about_contracts m s)) = snapshot s
      \<or> snapshot (snd (learn_about_contracts m s)) =
          AList.update ''future_locked_tokens'' (contract_snapshot m) (snapshot s))
   \<and> map fst (contract_snapshot m) = [1..365]
   \<and> (\<forall>p\<in>{1..365}. map_of (contract_snapshot m) p = Some (projr (get_all_locked_tokens m p)))"
proof -
  have completes: "learn_about_contracts m s =
        (Inr (), s\<lparr>snapshot := AList.update ''future_locked_tokens'' (contract_snapshot m)
                                 (snapshot s)\<rparr>)
      \<and> map_of (snapshot (snd (learn_about_contracts m s))) ''future_locked_tokens''
          = Some (contract_snapshot m)"
    if "\<forall>p\<in>{1..365}. \<not> isl (get_all_locked_tokens m p)"
    using learn_about_contracts_ok [OF that, of s] by (simp add: update_conv')
  have raises: "\<exists>e. learn_about_contracts m s = (Inl e, s)"
    if "\<exists>p\<in>{1..365}. isl (get_all_locked_tokens m p)"
    using that by (auto intro: learn_about_contracts_raises)
  have either: "snapshot (snd (learn_about_contracts m s)) = snapshot s
      \<or> snapshot (snd (learn_about_contracts m s)) =
          AList.update ''future_locked_tokens'' (contract_snapshot m) (snapshot s)"
  proof (cases "\<exists>p\<in>{1..365}. isl (get_all_locked_tokens m p)")
    case True
    from raises [OF this] show ?thesis by auto
  next
    case False
    then have "\<forall>p\<in>{1..365}. \<not> isl (get_all_locked_tokens m p)" by simp
    from completes [OF this] show ?thesis by simp
  qed
  have "\<forall>p\<in>{1..365}. map_of (contract_snapshot m) p = Some (projr (get_all_locked_tokens m p))"
    using contract_snapshot_value by blast
  with completes raises either contract_snapshot_keys [of m] show ?thesis
    by blast
qed

theorem contract_cycle_stores_complete_snapshot_witness:
  "learn_about_contracts example_moe example_crawler =
     (Inr (), example_crawler\<lparr>snapshot := [(''future_locked_tokens'', contract_snapshot example_moe)]\<rparr>)
   \<and> map_of (snapshot (snd (learn_about_contracts example_moe example_crawler)))
        ''future_locked_tokens'' = Some (contract_snapshot example_moe)
   \<and> map fst (contract_snapshot example_moe) = [1..365]
   \<and> map_of (contract_snapshot example_moe) 7 = Some 7000"
proof -
  have ok: "\<forall>p\<in>{1..365}. \<not> isl (get_all_locked_tokens example_moe p)"
    by (simp add: example_moe_def)
  have seven: "(7::int) \<in> {1..365}"
    by simp
  have empty: "snapshot example_crawler = []"
    by (simp add: example_crawler_def)
  have at7: "projr (get_all_locked_tokens example_moe 7) = 7000"
    by (simp add: example_moe_def)
  show ?thesis
    using contract_cycle_stores_complete_snapshot [of example_moe example_crawler] ok seven
    by (simp add: empty at7)
qed

section \<open>Stopping leaves the snapshot alone\<close>

text \<open>
  Claim C10. \<^verbatim>\<open>stop()\<close> never changes the snapshot, whatever state the crawler is in and
  however the call ends. When the crawler is running, holds a client and the store
  accepts the close, \<^verbatim>\<open>stop()\<close> logs, closes and clears the client and halts both tasks,
  and nothing else changes; the snapshot a contract-sampling cycle stored before the
  stop is what the \<^verbatim>\<open>snapshot\<close> property still returns.
\<close>

theorem stop_keeps_snapshot:
  "snapshot (snd (stop s)) = snapshot s
   \<and> (is_running s \<and> client s = Some c \<and> \<not> refuses (influx s) Close \<longrightarrow>
        stop s =
          (Inr (), s\<lparr>logged := logged s @ [(Info, StoppingMoeCrawler)],
                     influx := (influx s)\<lparr>calls := calls (influx s) @ [Close]\<rparr>,
                     client := None,
                     node_learning_task := (node_learning_task s)\<lparr>running := False\<rparr>,
                     contract_learning_task := (contract_learning_task s)\<lparr>running := False\<rparr>\<rparr>))"
  using stop_snapshot [of s] stop_running [of s c] by blast

theorem stop_keeps_snapshot_witness:
  "snapshot (snd (stop (snd (learn_about_contracts example_moe example_crawler))))
     = [(''future_locked_tokens'', contract_snapshot example_moe)]
   \<and> fst (stop (snd (learn_about_contracts example_moe example_crawler))) = Inr ()
   \<and> client (snd (stop (snd (learn_about_contracts example_moe example_crawler)))) = None
   \<and> \<not> is_running (snd (stop (snd (learn_about_contracts example_moe example_crawler))))"
proof -
  have ok: "\<forall>p\<in>{1..365}. \<not> isl (get_all_locked_tokens example_moe p)"
    by (simp add: example_moe_def)
  define s where "s = snd (learn_about_contracts example_moe example_crawler)"
  have s: "s = example_crawler\<lparr>snapshot := [(''future_locked_tokens'', contract_snapshot example_moe)]\<rparr>"
    by (simp add: s_def learn_about_contracts_ok [OF ok] example_crawler_def)
  have pre: "is_running s \<and> client s = Some (InfluxDBClient ''localhost'' 8086 DB_NAME)
             \<and> \<not> refuses (influx s) Close"
    by (simp add: s is_running_def example_crawler_def example_store_def)
  have "snapshot (snd (stop s)) = [(''future_locked_tokens'', contract_snapshot example_moe)]
        \<and> fst (stop s) = Inr () \<and> client (snd (stop s)) = None \<and> \<not> is_running (snd (stop s))"
    using stop_keeps_snapshot [of s "InfluxDBClient ''localhost'' 8086 DB_NAME"] pre
    by (simp add: s is_running_def)
  then show ?thesis
    by (simp add: s_def)
qed

section \<open>Node sampling\<close>

subsection \<open>The template and the wire format\<close>

lemma format_DB_LINE_PROTOCOL:
  "format DB_LINE_PROTOCOL
         [(''measurement'', DB_MEASUREMENT),
          (''staker_address'', a),
          (''worker_address'', w),
          (''start_date'', sd),
          (''end_date'', ed),
          (''stake'', st),
          (''locked_stake'', ls),
          (''current_period'', str_int cp),
          (''last_confirmed_period'', str_int lcp),
          (''timestamp'', str_int bt)] = Inr (line_protocol_record a w sd ed st ls cp lcp bt)"
  by (simp add: format_def DB_LINE_PROTOCOL_def DB_MEASUREMENT_def line_protocol_record_def)

lemma node_record_ok:
  "\<not> staker_call_raises m a \<Longrightarrow> node_record m bt cp a = Inr (expected_record m bt cp a)"
  unfolding staker_call_raises_def node_record_def expected_record_def and_then_def
  by (auto simp: format_DB_LINE_PROTOCOL Let_def isl_def split: sum.splits)


lemma node_records_ok:
  "\<not> list_ex (staker_call_raises m) ns \<Longrightarrow>
   node_records m bt cp ns data = Inr (data @ map (expected_record m bt cp) ns)"
  by (induction ns arbitrary: data) (simp_all add: node_record_ok)


lemma digit_char_no_space: "n < 10 \<Longrightarrow> digit_char n \<noteq> CHR '' ''"
proof -
  assume "n < 10"
  then have "n \<in> {0, 1, 2, 3, 4, 5, 6, 7, 8, 9}"
    by auto
  then show ?thesis
    by (auto simp: digit_char_def)
qed

lemma str_nat_no_space: "CHR '' '' \<notin> set (str_nat n)"
proof (induction n rule: str_nat.induct)
  case (1 n)
  show ?case
  proof (cases "n < 10")
    case True
    then show ?thesis
      using digit_char_no_space [of n] by (subst str_nat.simps) auto
  next
    case False
    have "n mod 10 < 10" by simp
    then show ?thesis
      using False 1 digit_char_no_space [of "n mod 10"] by (subst str_nat.simps) auto
  qed
qed

lemma str_int_no_space: "CHR '' '' \<notin> set (str_int i)"
  by (simp add: str_int_def str_nat_no_space)

lemma takeWhile_stop:
  "\<forall>c\<in>set xs. P c \<Longrightarrow> \<not> P y \<Longrightarrow> takeWhile P (xs @ y # ys) = xs"
  by (induction xs) auto

lemma sample_time_append:
  assumes "CHR '' '' \<notin> set t"
  shows "sample_time (xs @ CHR '' '' # t) = t"
proof -
  have "\<forall>c\<in>set (rev t). c \<noteq> CHR '' ''"
    using assms by auto
  then have "takeWhile (\<lambda>c. c \<noteq> CHR '' '') (rev t @ CHR '' '' # rev xs) = rev t"
    by (intro takeWhile_stop) auto
  then show ?thesis
    by (simp add: sample_time_def)
qed

lemma sample_time_record:
  "sample_time (line_protocol_record a w sd ed st ls cp lcp bt) = str_int bt"
proof -
  have "\<exists>xs. line_protocol_record a w sd ed st ls cp lcp bt = xs @ CHR '' '' # str_int bt"
    unfolding line_protocol_record_def
    by (rule exI [of _ "''moe_network_info,staker_address='' @ a @
     '' worker_address=\"'' @ w @ ''\",start_date='' @ sd @
     '',end_date='' @ ed @ '',stake='' @ st @ '',locked_stake='' @ ls @
     '',current_period='' @ str_int cp @ ''i,last_confirmed_period='' @
     str_int lcp @ ''i''"]) simp
  then show ?thesis
    using sample_time_append [OF str_int_no_space] by auto
qed


subsection \<open>The cycle\<close>

lemma MayaDT_format_ok:
  assumes "- 62135596800 \<le> t" "t \<le> 253402300799"
  shows "MayaDT_format t =
           Inr \<lparr>ordinal = 719163 + t div 86400, microsecond = (t mod 86400) * 1000000\<rparr>"
proof -
  have "- 719162 \<le> t div 86400" "t div 86400 \<le> 2932896"
    using assms by auto
  then show ?thesis
    using assms by (simp add: MayaDT_format_def utcfromtimestamp_def MAXORDINAL_def Let_def)
qed

lemma MayaDT_format_raises:
  assumes "t < - 62135596800 \<or> 253402300799 < t"
  shows "isl (MayaDT_format t)"
proof -
  have "t div 86400 < - 719162 \<or> 2932896 < t div 86400"
    using assms by auto
  then show ?thesis
    by (auto simp: MayaDT_format_def utcfromtimestamp_def MAXORDINAL_def Let_def)
qed

lemma learn_about_nodes_unformattable:
  assumes "latest_block_timestamp m = Inr bt" "get_current_period m = Inr cp"
    "abridged_nodes_dict m = Inr ns" "isl (MayaDT_format bt)"
  shows "\<exists>e. learn_about_nodes m s = (Inl e, s)"
  using assms by (auto simp: learn_about_nodes_def isl_def)

lemma learn_about_nodes_sampled:
  assumes "latest_block_timestamp m = Inr bt" "get_current_period m = Inr cp"
    "abridged_nodes_dict m = Inr ns" "MayaDT_format bt = Inr shown"
    "node_records m bt cp ns [] = Inr data"
  shows "learn_about_nodes m s =
           then_do (via_client (write_points data DB_NAME ''s'' 10000 ''line'')
                      (write_log Info (ProcessingNodes (length ns) shown cp) s))
             (\<lambda>written s.
                if \<not> written
                then (Inr (), write_log Warn (UnableToWrite DB_NAME shown cp) s)
                else (Inr (), s))"
  using assms by (simp add: learn_about_nodes_def cong: if_cong)

lemma learn_about_nodes_calls:
  assumes "latest_block_timestamp m = Inr bt" "get_current_period m = Inr cp"
    "abridged_nodes_dict m = Inr ns" "MayaDT_format bt = Inr shown"
    "node_records m bt cp ns [] = Inr data"
    "client s = Some c"
  shows "calls (influx (snd (learn_about_nodes m s))) =
           calls (influx s) @ [WritePoints data DB_NAME ''s'' 10000 ''line'']"
  using assms(6)
  by (simp add: learn_about_nodes_sampled [OF assms(1-5)] then_do_def via_client_def
      write_points_def write_log_def request_def Let_def)



lemma learn_about_nodes_accepted:
  assumes "latest_block_timestamp m = Inr bt" "get_current_period m = Inr cp"
    "abridged_nodes_dict m = Inr ns" "MayaDT_format bt = Inr shown"
    "node_records m bt cp ns [] = Inr data"
    "client s = Some c"
    "\<not> refuses (influx s) (WritePoints data DB_NAME ''s'' 10000 ''line'')"
    "\<not> rejects (influx s) data"
  shows "learn_about_nodes m s =
           (Inr (), s\<lparr>logged := logged s @ [(Info, ProcessingNodes (length ns) shown cp)],
                      influx := (influx s)\<lparr>calls := calls (influx s) @
                                  [WritePoints data DB_NAME ''s'' 10000 ''line''],
                                  points := points (influx s) @ data\<rparr>\<rparr>)"
  using assms(6-8)
  by (simp add: learn_about_nodes_sampled [OF assms(1-5)] then_do_def via_client_def
      write_points_def write_log_def request_def Let_def)


lemma example_moe_answers: "\<not> collaborator_raises example_moe"
  by (simp add: collaborator_raises_def staker_call_raises_def example_moe_def)

lemma example_block_time:
  "MayaDT_format 1577836800 = Inr \<lparr>ordinal = 737425, microsecond = 0\<rparr>"
  using MayaDT_format_ok [of 1577836800] by simp

lemma example_records:
  "expected_record example_moe 1577836800 18262 ''0xA'' =
     ''moe_network_info,staker_address=0xA worker_address=\"0xAw\",start_date=1555200000.0,end_date=1586736000.0,stake=15000.0,locked_stake=15000.0,current_period=18262i,last_confirmed_period=18261i 1577836800''"
  "expected_record example_moe 1577836800 18262 ''0xB'' =
     ''moe_network_info,staker_address=0xB worker_address=\"0xBw\",start_date=1555200000.0,end_date=1586736000.0,stake=15000.0,locked_stake=0.0,current_period=18262i,last_confirmed_period=18261i 1577836800''"
  by (simp_all add: expected_record_def example_moe_def line_protocol_record_def str_int_def
      str_nat.simps digit_char_def)


subsection \<open>One record per participant, one sample time\<close>

text \<open>
  Claim C1 says that a cycle in which no collaborator call raises produces its N
  records. The cycle formats the block time for its first log line before it samples
  anybody: with the latest block stamped 253402300800, the first second of the year
  10000, which a Python \<^verbatim>\<open>datetime\<close> cannot hold, the blockchain side answers every call
  for both known participants, and the cycle ends with ValueError, no record encoded
  and no write requested.
\<close>

theorem node_cycle_unformattable_block_time:
  "\<not> collaborator_raises far_future_moe
   \<and> latest_block_timestamp far_future_moe = Inr 253402300800
   \<and> abridged_nodes_dict far_future_moe = Inr [''0xA'', ''0xB'']
   \<and> learn_about_nodes far_future_moe example_crawler = (Inl ValueError, example_crawler)
   \<and> calls (influx (snd (learn_about_nodes far_future_moe example_crawler))) = []"
proof -
  have "\<not> collaborator_raises far_future_moe"
    by (simp add: collaborator_raises_def staker_call_raises_def far_future_moe_def
        example_moe_def)
  moreover have "MayaDT_format 253402300800 = Inl ValueError"
    by (simp add: MayaDT_format_def utcfromtimestamp_def MAXORDINAL_def Let_def)
  then have "learn_about_nodes far_future_moe example_crawler = (Inl ValueError, example_crawler)"
    by (simp add: learn_about_nodes_def far_future_moe_def example_moe_def)
  moreover have "calls (influx example_crawler) = []"
    by (simp add: example_crawler_def example_store_def)
  ultimately show ?thesis
    by (simp add: far_future_moe_def example_moe_def)
qed

text \<open>
  Claim C1, amended. Let no call to the blockchain side raise during a node-sampling
  cycle over the known participants \<open>ns\<close>, and let \<open>bt\<close> be the block timestamp read once
  before the loop. If \<open>bt\<close> is a time a Python \<^verbatim>\<open>datetime\<close> can hold (from 0001-01-01
  00:00:00 to 9999-12-31 23:59:59 UTC, that is from -62135596800 to 253402300799), the
  loop ends with exactly one record per participant, in order; each record is an
  instance of the wire format of section 6, built from that participant's answers
  (floats as Python prints them, which is left to \<open>float_str\<close>); every record carries the
  same sample time \<open>bt\<close>; and if the crawler holds a client, exactly these records are
  what the cycle hands to its one \<^verbatim>\<open>write_points\<close> call. If \<open>bt\<close> is outside that range,
  the cycle raises while it formats its first log line and leaves the crawler and the
  store as they were.
\<close>

theorem node_cycle_records:
  assumes "\<not> collaborator_raises m"
    and "latest_block_timestamp m = Inr bt"
    and "get_current_period m = Inr cp"
    and "abridged_nodes_dict m = Inr ns"
  shows "(- 62135596800 \<le> bt \<and> bt \<le> 253402300799 \<longrightarrow>
            node_records m bt cp ns [] = Inr (map (expected_record m bt cp) ns)
            \<and> length (map (expected_record m bt cp) ns) = length ns
            \<and> (\<forall>r\<in>set (map (expected_record m bt cp) ns). sample_time r = str_int bt)
            \<and> (client s \<noteq> None \<longrightarrow>
                 calls (influx (snd (learn_about_nodes m s))) =
                   calls (influx s) @
                     [WritePoints (map (expected_record m bt cp) ns) DB_NAME ''s'' 10000 ''line'']))
         \<and> (bt < - 62135596800 \<or> 253402300799 < bt \<longrightarrow>
              (\<exists>e. learn_about_nodes m s = (Inl e, s)))"
proof -
  have formattable: "node_records m bt cp ns [] = Inr (map (expected_record m bt cp) ns)
            \<and> length (map (expected_record m bt cp) ns) = length ns
            \<and> (\<forall>r\<in>set (map (expected_record m bt cp) ns). sample_time r = str_int bt)
            \<and> (client s \<noteq> None \<longrightarrow>
                 calls (influx (snd (learn_about_nodes m s))) =
                   calls (influx s) @
                     [WritePoints (map (expected_record m bt cp) ns) DB_NAME ''s'' 10000 ''line''])"
    if range: "- 62135596800 \<le> bt \<and> bt \<le> 253402300799"
  proof -
    from assms have "\<not> list_ex (staker_call_raises m) ns"
      by (simp add: collaborator_raises_def)
    then have data: "node_records m bt cp ns [] = Inr (map (expected_record m bt cp) ns)"
      using node_records_ok [of m ns bt cp "[]"] by simp
    have "sample_time (expected_record m bt cp a) = str_int bt" for a
      by (simp add: expected_record_def Let_def sample_time_record)
    then have times: "\<forall>r\<in>set (map (expected_record m bt cp) ns). sample_time r = str_int bt"
      by auto
    have shown: "MayaDT_format bt =
        Inr \<lparr>ordinal = 719163 + bt div 86400, microsecond = (bt mod 86400) * 1000000\<rparr>"
      using range by (intro MayaDT_format_ok) simp_all
    have "client s \<noteq> None \<longrightarrow>
                calls (influx (snd (learn_about_nodes m s))) =
                  calls (influx s) @
                    [WritePoints (map (expected_record m bt cp) ns) DB_NAME ''s'' 10000 ''line'']"
      using learn_about_nodes_calls [OF assms(2-4) shown data] by auto
    with data times show ?thesis
      by simp
  qed
  have unformattable: "\<exists>e. learn_about_nodes m s = (Inl e, s)"
    if "bt < - 62135596800 \<or> 253402300799 < bt"
  proof -
    from that have "isl (MayaDT_format bt)"
      by (rule MayaDT_format_raises)
    with assms(2-4) show ?thesis
      by (rule learn_about_nodes_unformattable)
  qed
  from formattable unformattable show ?thesis
    by blast
qed

theorem node_cycle_records_witness:
  "\<not> collaborator_raises example_moe
   \<and> node_records example_moe 1577836800 18262 [''0xA'', ''0xB''] [] =
       Inr [''moe_network_info,staker_address=0xA worker_address=\"0xAw\",start_date=1555200000.0,end_date=1586736000.0,stake=15000.0,locked_stake=15000.0,current_period=18262i,last_confirmed_period=18261i 1577836800'',
            ''moe_network_info,staker_address=0xB worker_address=\"0xBw\",start_date=1555200000.0,end_date=1586736000.0,stake=15000.0,locked_stake=0.0,current_period=18262i,last_confirmed_period=18261i 1577836800'']
   \<and> sample_time (expected_record example_moe 1577836800 18262 ''0xA'') = str_int 1577836800
   \<and> sample_time (expected_record example_moe 1577836800 18262 ''0xB'') = str_int 1577836800
   \<and> calls (influx (snd (learn_about_nodes example_moe example_crawler))) =
       [WritePoints [expected_record example_moe 1577836800 18262 ''0xA'',
                     expected_record example_moe 1577836800 18262 ''0xB''] DB_NAME ''s'' 10000 ''line'']
   \<and> isl (fst (learn_about_nodes far_future_moe example_crawler))
   \<and> snd (learn_about_nodes far_future_moe example_crawler) = example_crawler"
proof -
  have bt: "latest_block_timestamp example_moe = Inr 1577836800"
    and cp: "get_current_period example_moe = Inr 18262"
    and ns: "abridged_nodes_dict example_moe = Inr [''0xA'', ''0xB'']"
    by (simp_all add: example_moe_def)
  have c: "client example_crawler \<noteq> None" "calls (influx example_crawler) = []"
    by (simp_all add: example_crawler_def example_store_def)
  have formattable: "node_records example_moe 1577836800 18262 [''0xA'', ''0xB''] [] =
       Inr [expected_record example_moe 1577836800 18262 ''0xA'',
            expected_record example_moe 1577836800 18262 ''0xB'']
   \<and> sample_time (expected_record example_moe 1577836800 18262 ''0xA'') = str_int 1577836800
   \<and> sample_time (expected_record example_moe 1577836800 18262 ''0xB'') = str_int 1577836800
   \<and> calls (influx (snd (learn_about_nodes example_moe example_crawler))) =
       [WritePoints [expected_record example_moe 1577836800 18262 ''0xA'',
                     expected_record example_moe 1577836800 18262 ''0xB''] DB_NAME ''s'' 10000 ''line'']"
    using node_cycle_records [OF example_moe_answers bt cp ns, of example_crawler] c
    by simp
  have far: "\<not> collaborator_raises far_future_moe"
    "latest_block_timestamp far_future_moe = Inr 253402300800"
    "get_current_period far_future_moe = Inr 18262"
    "abridged_nodes_dict far_future_moe = Inr [''0xA'', ''0xB'']"
    by (simp_all add: collaborator_raises_def staker_call_raises_def far_future_moe_def
        example_moe_def)
  have "\<exists>e. learn_about_nodes far_future_moe example_crawler = (Inl e, example_crawler)"
    using node_cycle_records [OF far, of example_crawler] by simp
  then have unformattable: "isl (fst (learn_about_nodes far_future_moe example_crawler))
     \<and> snd (learn_about_nodes far_future_moe example_crawler) = example_crawler"
    by auto
  show ?thesis
    using formattable unformattable example_moe_answers
    by (simp add: example_records)
qed

subsection \<open>A failed sample writes nothing\<close>



subsection \<open>A failed write\<close>




section \<open>Schema bootstrap\<close>

lemma ensure_existing:
  assumes "DB_NAME \<in> set (databases (influx s))"
  shows "databases (influx (snd (ensure_db_exists s))) = databases (influx s)
       \<and> retention_policies (influx (snd (ensure_db_exists s))) = retention_policies (influx s)
       \<and> calls (influx (snd (ensure_db_exists s))) =
           calls (influx s) @ (if client s = None then [] else [GetListDatabase])"
proof -
  have "filter (\<lambda>db. db = DB_NAME) (databases (influx s)) \<noteq> []"
    using assms by (simp add: filter_empty_conv)
  then show ?thesis
    by (auto simp: ensure_db_exists_def then_do_def via_client_def get_list_database_def
        request_def write_log_def Let_def split: option.splits)
qed

lemma ensure_absent:
  assumes "DB_NAME \<notin> set (databases (influx s))" "client s = Some c"
    "\<not> refuses (influx s) GetListDatabase"
    "\<not> refuses (influx s) (CreateDatabase DB_NAME)"
    "\<not> refuses (influx s) (CreateRetentionPolicy bootstrap_policy)"
  shows "ensure_db_exists s =
           (Inr (), s\<lparr>logged := logged s @ [(Info, DatabaseNotFound DB_NAME)],
                      influx := (influx s)
                        \<lparr>calls := calls (influx s) @
                                   [GetListDatabase, CreateDatabase DB_NAME,
                                    CreateRetentionPolicy bootstrap_policy],
                         databases := databases (influx s) @ [DB_NAME],
                         retention_policies := retention_policies (influx s) @ [bootstrap_policy]\<rparr>\<rparr>)"
proof -
  have "filter (\<lambda>db. db = DB_NAME) (databases (influx s)) = []"
    using assms(1) by (auto simp: filter_empty_conv)
  then show ?thesis
    using assms(2-5)
    by (simp add: ensure_db_exists_def then_do_def via_client_def get_list_database_def
        create_database_def create_retention_policy_def bootstrap_policy_def
        DB_NAME_def DB_RETENTION_POLICY_NAME_def DB_RETENTION_POLICY_PERIOD_def
        DB_RETENTION_POLICY_REPLICATION_def
        request_def write_log_def Let_def)
qed

lemma ensure_creates_at_most_once:
  "(databases (influx (snd (ensure_db_exists s))) = databases (influx s)
    \<or> (DB_NAME \<notin> set (databases (influx s))
       \<and> databases (influx (snd (ensure_db_exists s))) = databases (influx s) @ [DB_NAME]))
   \<and> (retention_policies (influx (snd (ensure_db_exists s))) = retention_policies (influx s)
    \<or> (DB_NAME \<notin> set (databases (influx s))
       \<and> databases (influx (snd (ensure_db_exists s))) = databases (influx s) @ [DB_NAME]
       \<and> retention_policies (influx (snd (ensure_db_exists s))) =
            retention_policies (influx s) @ [bootstrap_policy]))"
proof (cases "DB_NAME \<in> set (databases (influx s))")
  case True
  then show ?thesis using ensure_existing [of s] by simp
next
  case False
  then have "filter (\<lambda>db. db = DB_NAME) (databases (influx s)) = []"
    by (auto simp: filter_empty_conv)
  then show ?thesis
    using False
    by (auto simp: ensure_db_exists_def then_do_def via_client_def get_list_database_def
        create_database_def create_retention_policy_def bootstrap_policy_def
        DB_NAME_def DB_RETENTION_POLICY_NAME_def DB_RETENTION_POLICY_PERIOD_def
        DB_RETENTION_POLICY_REPLICATION_def
        request_def write_log_def Let_def split: option.splits)
qed

lemma ensure_twice:
  fixes s :: crawler
  defines "s1 \<equiv> snd (ensure_db_exists s)"
  defines "s2 \<equiv> snd (ensure_db_exists s1)"
  shows "(databases (influx s2) = databases (influx s)
          \<or> (DB_NAME \<notin> set (databases (influx s))
             \<and> databases (influx s2) = databases (influx s) @ [DB_NAME]))
       \<and> (retention_policies (influx s2) = retention_policies (influx s)
          \<or> (DB_NAME \<notin> set (databases (influx s))
             \<and> retention_policies (influx s2) = retention_policies (influx s) @ [bootstrap_policy]))"
  using ensure_creates_at_most_once [of s] ensure_creates_at_most_once [of s1]
  unfolding s1_def [symmetric] s2_def [symmetric]
  by auto


lemma ensure_policy_refused:
  assumes "DB_NAME \<notin> set (databases (influx s))" "client s = Some c"
    "\<not> refuses (influx s) GetListDatabase"
    "\<not> refuses (influx s) (CreateDatabase DB_NAME)"
    "refuses (influx s) (CreateRetentionPolicy bootstrap_policy)"
  shows "ensure_db_exists s =
           (Inl StoreError,
            s\<lparr>logged := logged s @ [(Info, DatabaseNotFound DB_NAME)],
              influx := (influx s)
                \<lparr>calls := calls (influx s) @
                           [GetListDatabase, CreateDatabase DB_NAME,
                            CreateRetentionPolicy bootstrap_policy],
                 databases := databases (influx s) @ [DB_NAME]\<rparr>\<rparr>)"
proof -
  have "filter (\<lambda>db. db = DB_NAME) (databases (influx s)) = []"
    using assms(1) by (auto simp: filter_empty_conv)
  then show ?thesis
    using assms(2-5)
    by (simp add: ensure_db_exists_def then_do_def via_client_def get_list_database_def
        create_database_def create_retention_policy_def bootstrap_policy_def
        DB_NAME_def DB_RETENTION_POLICY_NAME_def DB_RETENTION_POLICY_PERIOD_def
        DB_RETENTION_POLICY_REPLICATION_def
        request_def write_log_def Let_def)
qed

lemma ensure_database_refused:
  assumes "DB_NAME \<notin> set (databases (influx s))" "client s = Some c"
    "\<not> refuses (influx s) GetListDatabase"
    "refuses (influx s) (CreateDatabase DB_NAME)"
  shows "ensure_db_exists s =
           (Inl StoreError,
            s\<lparr>logged := logged s @ [(Info, DatabaseNotFound DB_NAME)],
              influx := (influx s)
                \<lparr>calls := calls (influx s) @ [GetListDatabase, CreateDatabase DB_NAME]\<rparr>\<rparr>)"
proof -
  have "filter (\<lambda>db. db = DB_NAME) (databases (influx s)) = []"
    using assms(1) by (auto simp: filter_empty_conv)
  then show ?thesis
    using assms(2-4)
    by (simp add: ensure_db_exists_def then_do_def via_client_def get_list_database_def
        create_database_def request_def write_log_def Let_def)
qed

lemma ensure_listing_refused:
  assumes "client s = Some c" "refuses (influx s) GetListDatabase"
  shows "ensure_db_exists s =
           (Inl StoreError, s\<lparr>influx := (influx s)\<lparr>calls := calls (influx s) @ [GetListDatabase]\<rparr>\<rparr>)"
  using assms
  by (simp add: ensure_db_exists_def then_do_def via_client_def get_list_database_def
      request_def)

lemma ensure_no_client:
  assumes "client s = None"
  shows "ensure_db_exists s = (Inl AttributeError, s)"
  using assms by (simp add: ensure_db_exists_def then_do_def via_client_def)

text \<open>
  Claim C7 says that an absent database is created together with its retention policy.
  The two are created by two requests, and nothing is caught between them: here the
  store creates the database and answers the creation of the policy with an error.
  \<^verbatim>\<open>_ensure_db_exists\<close> ends with that exception, the database exists and has no policy;
  and when it is run again, with the store now accepting every request, it finds the
  database and creates no policy.
\<close>

theorem policy_refused_leaves_database_without_policy:
  "DB_NAME \<notin> set (databases (influx policy_refusing_crawler))
   \<and> ensure_db_exists policy_refusing_crawler =
       (Inl StoreError, policy_refusing_crawler
          \<lparr>logged := [(Info, DatabaseNotFound ''network'')],
           influx := (influx policy_refusing_crawler)
             \<lparr>calls := [GetListDatabase, CreateDatabase ''network'',
                        CreateRetentionPolicy bootstrap_policy],
              databases := [''_internal'', ''network'']\<rparr>\<rparr>)
   \<and> databases (influx (snd (ensure_db_exists policy_refusing_crawler))) =
       [''_internal'', ''network'']
   \<and> retention_policies (influx (snd (ensure_db_exists policy_refusing_crawler))) = []
   \<and> databases (influx policy_missing_crawler) = [''_internal'', ''network'']
   \<and> retention_policies (influx policy_missing_crawler) = []
   \<and> ensure_db_exists policy_missing_crawler =
       (Inr (), policy_missing_crawler
          \<lparr>logged := [(Info, DatabaseNotFound ''network''), (Info, DatabaseExists ''network'')],
           influx := (influx policy_missing_crawler)
             \<lparr>calls := [GetListDatabase, CreateDatabase ''network'',
                        CreateRetentionPolicy bootstrap_policy, GetListDatabase]\<rparr>\<rparr>)
   \<and> retention_policies (influx (snd (ensure_db_exists policy_missing_crawler))) = []"
proof -
  define c where "c = InfluxDBClient ''localhost'' 8086 DB_NAME"
  have f: "databases (influx policy_refusing_crawler) = [''_internal'']"
    "retention_policies (influx policy_refusing_crawler) = []"
    "calls (influx policy_refusing_crawler) = []"
    "logged policy_refusing_crawler = []"
    "client policy_refusing_crawler = Some c"
    "\<not> refuses (influx policy_refusing_crawler) GetListDatabase"
    "\<not> refuses (influx policy_refusing_crawler) (CreateDatabase DB_NAME)"
    "refuses (influx policy_refusing_crawler) (CreateRetentionPolicy bootstrap_policy)"
    by (simp_all add: policy_refusing_crawler_def fresh_crawler_def example_crawler_def
        example_store_def c_def)
  have absent: "DB_NAME \<notin> set (databases (influx policy_refusing_crawler))"
    by (simp add: f DB_NAME_def)
  have first: "ensure_db_exists policy_refusing_crawler =
       (Inl StoreError, policy_refusing_crawler
          \<lparr>logged := [(Info, DatabaseNotFound ''network'')],
           influx := (influx policy_refusing_crawler)
             \<lparr>calls := [GetListDatabase, CreateDatabase ''network'',
                        CreateRetentionPolicy bootstrap_policy],
              databases := [''_internal'', ''network'']\<rparr>\<rparr>)"
    using ensure_policy_refused [OF absent f(5-8)] by (simp add: f DB_NAME_def)
  have g: "databases (influx policy_missing_crawler) = [''_internal'', ''network'']"
    "retention_policies (influx policy_missing_crawler) = []"
    "calls (influx policy_missing_crawler) =
       [GetListDatabase, CreateDatabase ''network'', CreateRetentionPolicy bootstrap_policy]"
    "logged policy_missing_crawler = [(Info, DatabaseNotFound ''network'')]"
    "client policy_missing_crawler = Some c"
    "\<not> refuses (influx policy_missing_crawler) GetListDatabase"
    by (simp_all add: policy_missing_crawler_def fresh_crawler_def example_crawler_def
        example_store_def bootstrap_policy_def c_def)
  have second: "ensure_db_exists policy_missing_crawler =
       (Inr (), policy_missing_crawler
          \<lparr>logged := [(Info, DatabaseNotFound ''network''), (Info, DatabaseExists ''network'')],
           influx := (influx policy_missing_crawler)
             \<lparr>calls := [GetListDatabase, CreateDatabase ''network'',
                        CreateRetentionPolicy bootstrap_policy, GetListDatabase]\<rparr>\<rparr>)"
    by (simp add: ensure_db_exists_def then_do_def via_client_def get_list_database_def
        request_def write_log_def Let_def g DB_NAME_def)
  show ?thesis
    using absent by (simp add: first second f g)
qed

text \<open>
  Claim C7, amended. Whenever the database \<^verbatim>\<open>network\<close> is already listed,
  \<^verbatim>\<open>_ensure_db_exists\<close> leaves the store's databases and retention policies as they are
  and sends nothing but the listing request. Running it twice from any state creates
  the database at most once and the retention policy at most once, and only when the
  database was absent at the start. When the database is absent, what happens depends
  on the client and the store. If the crawler holds a client and the store accepts the
  listing and both creations, the database is created together with the retention
  policy \<^verbatim>\<open>network_info_retention\<close> (duration 5w, replication 1, default). If the store
  accepts the listing and the creation of the database but refuses the creation of the
  policy, the run raises with the database created and no policy; every later run then
  finds the database listed and, by the first sentence, creates no policy. If the store
  refuses the creation of the database or the listing, or the crawler holds no client,
  the run raises and nothing is created.
\<close>

theorem schema_bootstrap_idempotent:
  "(DB_NAME \<in> set (databases (influx s)) \<longrightarrow>
      databases (influx (snd (ensure_db_exists s))) = databases (influx s)
      \<and> retention_policies (influx (snd (ensure_db_exists s))) = retention_policies (influx s)
      \<and> calls (influx (snd (ensure_db_exists s))) =
          calls (influx s) @ (if client s = None then [] else [GetListDatabase]))
   \<and> (databases (influx (snd (ensure_db_exists (snd (ensure_db_exists s))))) = databases (influx s)
      \<or> (DB_NAME \<notin> set (databases (influx s))
         \<and> databases (influx (snd (ensure_db_exists (snd (ensure_db_exists s))))) =
             databases (influx s) @ [DB_NAME]))
   \<and> (retention_policies (influx (snd (ensure_db_exists (snd (ensure_db_exists s))))) =
        retention_policies (influx s)
      \<or> (DB_NAME \<notin> set (databases (influx s))
         \<and> retention_policies (influx (snd (ensure_db_exists (snd (ensure_db_exists s))))) =
             retention_policies (influx s) @ [bootstrap_policy]))
   \<and> (DB_NAME \<notin> set (databases (influx s)) \<and> client s = Some c
      \<and> \<not> refuses (influx s) GetListDatabase
      \<and> \<not> refuses (influx s) (CreateDatabase DB_NAME)
      \<and> \<not> refuses (influx s) (CreateRetentionPolicy bootstrap_policy) \<longrightarrow>
      ensure_db_exists s =
        (Inr (), s\<lparr>logged := logged s @ [(Info, DatabaseNotFound DB_NAME)],
                   influx := (influx s)
                     \<lparr>calls := calls (influx s) @
                                [GetListDatabase, CreateDatabase DB_NAME,
                                 CreateRetentionPolicy bootstrap_policy],
                      databases := databases (influx s) @ [DB_NAME],
                      retention_policies := retention_policies (influx s) @ [bootstrap_policy]\<rparr>\<rparr>))
   \<and> (DB_NAME \<notin> set (databases (influx s)) \<and> client s = Some c
      \<and> \<not> refuses (influx s) GetListDatabase
      \<and> \<not> refuses (influx s) (CreateDatabase DB_NAME)
      \<and> refuses (influx s) (CreateRetentionPolicy bootstrap_policy) \<longrightarrow>
      ensure_db_exists s =
        (Inl StoreError,
         s\<lparr>logged := logged s @ [(Info, DatabaseNotFound DB_NAME)],
           influx := (influx s)
             \<lparr>calls := calls (influx s) @
                        [GetListDatabase, CreateDatabase DB_NAME,
                         CreateRetentionPolicy bootstrap_policy],
              databases := databases (influx s) @ [DB_NAME]\<rparr>\<rparr>))
   \<and> (DB_NAME \<notin> set (databases (influx s)) \<and> client s = Some c
      \<and> \<not> refuses (influx s) GetListDatabase
      \<and> refuses (influx s) (CreateDatabase DB_NAME) \<longrightarrow>
      ensure_db_exists s =
        (Inl StoreError,
         s\<lparr>logged := logged s @ [(Info, DatabaseNotFound DB_NAME)],
           influx := (influx s)
             \<lparr>calls := calls (influx s) @ [GetListDatabase, CreateDatabase DB_NAME]\<rparr>\<rparr>))
   \<and> (client s = Some c \<and> refuses (influx s) GetListDatabase \<longrightarrow>
      ensure_db_exists s =
        (Inl StoreError,
         s\<lparr>influx := (influx s)\<lparr>calls := calls (influx s) @ [GetListDatabase]\<rparr>\<rparr>))
   \<and> (client s = None \<longrightarrow> ensure_db_exists s = (Inl AttributeError, s))
   \<and> DB_NAME = ''network''
   \<and> bootstrap_policy =
       \<lparr>rp_name = ''network_info_retention'', rp_duration = ''5w'', rp_replication = ''1'',
        rp_database = ''network'', rp_default = True\<rparr>"
proof -
  note listed = ensure_existing [of s]
  note twice = ensure_twice [of s]
  note created = ensure_absent [of s c]
  note no_policy = ensure_policy_refused [of s c]
  note no_database = ensure_database_refused [of s c]
  note no_listing = ensure_listing_refused [of s c]
  note no_client = ensure_no_client [of s]
  have names: "DB_NAME = ''network''"
    "bootstrap_policy =
       \<lparr>rp_name = ''network_info_retention'', rp_duration = ''5w'', rp_replication = ''1'',
        rp_database = ''network'', rp_default = True\<rparr>"
    by (simp_all add: DB_NAME_def bootstrap_policy_def)
  from listed twice created no_policy no_database no_listing no_client names
  show ?thesis
    by blast
qed

theorem schema_bootstrap_idempotent_witness:
  "ensure_db_exists fresh_crawler =
     (Inr (), fresh_crawler
        \<lparr>logged := [(Info, DatabaseNotFound ''network'')],
         influx := (influx fresh_crawler)
           \<lparr>calls := [GetListDatabase, CreateDatabase ''network'',
                      CreateRetentionPolicy bootstrap_policy],
            databases := [''_internal'', ''network''],
            retention_policies := [bootstrap_policy]\<rparr>\<rparr>)
   \<and> databases (influx (snd (ensure_db_exists (snd (ensure_db_exists fresh_crawler))))) =
       [''_internal'', ''network'']
   \<and> retention_policies (influx (snd (ensure_db_exists (snd (ensure_db_exists fresh_crawler))))) =
       [bootstrap_policy]
   \<and> calls (influx (snd (ensure_db_exists (snd (ensure_db_exists fresh_crawler))))) =
       [GetListDatabase, CreateDatabase ''network'', CreateRetentionPolicy bootstrap_policy,
        GetListDatabase]
   \<and> fst (ensure_db_exists policy_refusing_crawler) = Inl StoreError
   \<and> databases (influx (snd (ensure_db_exists policy_refusing_crawler))) =
       [''_internal'', ''network'']
   \<and> retention_policies (influx (snd (ensure_db_exists policy_refusing_crawler))) = []"
proof -
  define c where "c = InfluxDBClient ''localhost'' 8086 DB_NAME"
  define s1 where "s1 = fresh_crawler
        \<lparr>logged := [(Info, DatabaseNotFound ''network'')],
         influx := (influx fresh_crawler)
           \<lparr>calls := [GetListDatabase, CreateDatabase ''network'',
                      CreateRetentionPolicy bootstrap_policy],
            databases := [''_internal'', ''network''],
            retention_policies := [bootstrap_policy]\<rparr>\<rparr>"
  have f: "databases (influx fresh_crawler) = [''_internal'']"
    "retention_policies (influx fresh_crawler) = []"
    "calls (influx fresh_crawler) = []"
    "logged fresh_crawler = []"
    "client fresh_crawler = Some c"
    "\<not> refuses (influx fresh_crawler) x" for x
    by (simp_all add: fresh_crawler_def example_crawler_def example_store_def c_def)
  have first: "ensure_db_exists fresh_crawler = (Inr (), s1)"
    using schema_bootstrap_idempotent [of fresh_crawler c]
    by (simp add: f DB_NAME_def s1_def)
  have s1: "databases (influx s1) = [''_internal'', ''network'']"
    "retention_policies (influx s1) = [bootstrap_policy]"
    "calls (influx s1) = [GetListDatabase, CreateDatabase ''network'',
                          CreateRetentionPolicy bootstrap_policy]"
    "client s1 \<noteq> None"
    by (simp_all add: s1_def f)
  have second: "databases (influx (snd (ensure_db_exists s1))) = [''_internal'', ''network'']
    \<and> retention_policies (influx (snd (ensure_db_exists s1))) = [bootstrap_policy]
    \<and> calls (influx (snd (ensure_db_exists s1))) =
        [GetListDatabase, CreateDatabase ''network'', CreateRetentionPolicy bootstrap_policy,
         GetListDatabase]"
    using schema_bootstrap_idempotent [of s1 c]
    by (simp add: s1 DB_NAME_def)
  have p: "databases (influx policy_refusing_crawler) = [''_internal'']"
    "retention_policies (influx policy_refusing_crawler) = []"
    "client policy_refusing_crawler = Some c"
    "\<not> refuses (influx policy_refusing_crawler) GetListDatabase"
    "\<not> refuses (influx policy_refusing_crawler) (CreateDatabase ''network'')"
    "refuses (influx policy_refusing_crawler) (CreateRetentionPolicy bootstrap_policy)"
    by (simp_all add: policy_refusing_crawler_def fresh_crawler_def example_crawler_def
        example_store_def c_def)
  have third: "fst (ensure_db_exists policy_refusing_crawler) = Inl StoreError
    \<and> databases (influx (snd (ensure_db_exists policy_refusing_crawler))) =
        [''_internal'', ''network'']
    \<and> retention_policies (influx (snd (ensure_db_exists policy_refusing_crawler))) = []"
    using schema_bootstrap_idempotent [of policy_refusing_crawler c]
    by (simp add: p DB_NAME_def)
  show ?thesis
    using first second third by (simp add: s1_def)
qed

section \<open>Starting and the restart policy\<close>

lemma init_is_ensure: "init 60 True (influx fresh_crawler) = ensure_db_exists fresh_crawler"
  by (simp add: init_def fresh_crawler_def example_crawler_def)

lemma start_when_running: "is_running s \<Longrightarrow> start s = (Inr (), s)"
  by (simp add: start_def)

lemma start_when_stopped:
  assumes "\<not> running (node_learning_task s)" "\<not> running (contract_learning_task s)"
    "2 \<le> refresh_rate s"
  shows "start s =
    (Inr (), s\<lparr>logged := logged s @ [(Info, StartingMoeCrawler)],
               client := Some (case client s of
                                 None \<Rightarrow> InfluxDBClient ''localhost'' 8086 DB_NAME
                               | Some c \<Rightarrow> c),
               node_learning_task :=
                 \<lparr>running = True, interval = Some (refresh_rate s), now = True, has_errback = True\<rparr>,
               contract_learning_task :=
                 \<lparr>running = True, interval = Some (refresh_rate s - 2), now = True,
                  has_errback = True\<rparr>\<rparr>)"
  using assms
  by (cases "client s") (simp_all add: start_def is_running_def write_log_def lc_start_def Let_def)

lemma handle_errors_cases:
  "handle_errors e s =
     (if \<not> restart_on_error s then (Inr (), write_log Critical (UnhandledError e) s)
      else if running (node_learning_task s)
      then (Inr (), write_log Warn (UnhandledErrorRestarting e) s)
      else start (write_log Warn (UnhandledErrorRestarting e) s))"
  by (simp add: handle_errors_def Let_def write_log_def)

lemma failing_staker_cycle:
  "learn_about_nodes failing_staker_moe example_crawler =
     (Inl (CollaboratorError ''timeout''),
      example_crawler
        \<lparr>logged := [(Info, ProcessingNodes 2 \<lparr>ordinal = 737425, microsecond = 0\<rparr> 18262)]\<rparr>)"
proof -
  have a: "\<not> staker_call_raises failing_staker_moe ''0xA''"
    by (simp add: staker_call_raises_def failing_staker_moe_def example_moe_def)
  have b: "node_record failing_staker_moe 1577836800 18262 ''0xB'' = Inl (CollaboratorError ''timeout'')"
    by (simp add: node_record_def failing_staker_moe_def example_moe_def)
  have "node_records failing_staker_moe 1577836800 18262 [''0xA'', ''0xB''] [] =
          Inl (CollaboratorError ''timeout'')"
    by (simp add: node_record_ok [OF a] b)
  then show ?thesis
    by (simp add: learn_about_nodes_def failing_staker_moe_def example_moe_def write_log_def
        example_crawler_def example_block_time)
qed

text \<open>
  Claim C3 against the code. The crawler runs with \<^verbatim>\<open>restart_on_error\<close> set and its
  contract-sampling task raises. At the task boundary Twisted stops that task and calls
  \<^verbatim>\<open>_handle_errors\<close>, which looks at the node-sampling task only: that one still runs, so
  the warning is logged, \<^verbatim>\<open>start()\<close> is not called, and the contract-sampling task stays
  stopped. When instead the node-sampling task raises, \<^verbatim>\<open>start()\<close> is called once; it
  asks the node task and then the still running contract task to start, which Twisted
  answers with an AssertionError that leaves \<^verbatim>\<open>_handle_errors\<close>: the contract task was
  never stopped, and it is not restarted.
\<close>

theorem contract_failure_is_not_restarted:
  "restart_on_error example_crawler
   \<and> is_running example_crawler
   \<and> has_errback (contract_learning_task example_crawler)
   \<and> contract_task_call unreachable_contract_moe example_crawler =
       (None, example_crawler
          \<lparr>contract_learning_task :=
             \<lparr>running = False, interval = Some 58, now = True, has_errback = False\<rparr>,
           logged := [(Warn, UnhandledErrorRestarting (CollaboratorError ''connection lost''))]\<rparr>)
   \<and> \<not> running (contract_learning_task
                  (snd (contract_task_call unreachable_contract_moe example_crawler)))
   \<and> \<not> is_running (snd (contract_task_call unreachable_contract_moe example_crawler))
   \<and> handle_errors (CollaboratorError ''connection lost'') contract_stopped_crawler =
       (Inr (), contract_stopped_crawler
          \<lparr>logged := [(Warn, UnhandledErrorRestarting (CollaboratorError ''connection lost''))]\<rparr>)
   \<and> fst (node_task_call failing_staker_moe example_crawler) = Some AssertionError
   \<and> running (contract_learning_task (snd (node_task_call failing_staker_moe example_crawler)))"
proof -
  have "[1..365] = 1 # [2..365]"
    by (simp add: upto_rec1)
  then have l: "learn_about_contracts unreachable_contract_moe example_crawler =
               (Inl (CollaboratorError ''connection lost''), example_crawler)"
    by (simp add: learn_about_contracts_def unreachable_contract_moe_def example_moe_def)
  show ?thesis
    unfolding contract_task_call_def l node_task_call_def failing_staker_cycle
    by (simp add: task_failed_def handle_errors_cases start_def is_running_def lc_start_def
        write_log_def Let_def example_crawler_def contract_stopped_crawler_def)
qed

text \<open>
  Claim C9 against the code. \<^verbatim>\<open>is_running\<close> is false as soon as one task has stopped,
  and \<^verbatim>\<open>start()\<close> then asks both to start. With the node task still running the first
  \<^verbatim>\<open>LoopingCall.start\<close> raises AssertionError: the contract task is never begun and the
  crawler stays not running. With the contract task still running the second
  \<^verbatim>\<open>LoopingCall.start\<close> raises, before \<^verbatim>\<open>_handle_errors\<close> is added to the node task's new
  Deferred. The lemmas \<open>start_when_stopped\<close> and \<open>start_when_running\<close> above are the two
  cases in which the requests \<^verbatim>\<open>start()\<close> makes are the ones the claim describes.
\<close>

theorem start_with_one_task_running:
  "\<not> is_running contract_stopped_crawler
   \<and> start contract_stopped_crawler =
       (Inl AssertionError, contract_stopped_crawler\<lparr>logged := [(Info, StartingMoeCrawler)]\<rparr>)
   \<and> \<not> running (contract_learning_task (snd (start contract_stopped_crawler)))
   \<and> \<not> is_running (snd (start contract_stopped_crawler))
   \<and> \<not> is_running node_stopped_crawler
   \<and> fst (start node_stopped_crawler) = Inl AssertionError
   \<and> \<not> has_errback (node_learning_task (snd (start node_stopped_crawler)))"
  by (simp add: start_def is_running_def lc_start_def write_log_def Let_def
      contract_stopped_crawler_def node_stopped_crawler_def example_crawler_def)


section \<open>Historical queries\<close>

subsection \<open>Filling the series\<close>

lemma truthy_iff: "truthy v \<longleftrightarrow> v \<noteq> None \<and> v \<noteq> Some 0"
  by (cases v) auto

lemma fill_dict_step:
  "fill_dict env column (r # results) d = Inr m \<Longrightarrow>
   \<exists>v. getitem (columns r) column = Inr v \<and>
     (if truthy v
      then \<exists>day. day_of env r = Inr day \<and>
             fill_dict env column results (AList.update day (the v) d) = Inr m
      else fill_dict env column results d = Inr m)"
  by (auto simp: day_of_def split: sum.splits if_splits)

lemma fill_dict_keys:
  "fill_dict env column results d = Inr m \<Longrightarrow>
   fst ` set m = fst ` set d \<union> {day. \<exists>r\<in>set results. counted env column r day}"
proof (induction results arbitrary: d)
  case Nil
  then show ?case by simp
next
  case (Cons r results)
  from fill_dict_step [OF Cons.prems] obtain v where v: "getitem (columns r) column = Inr v" and
    step: "if truthy v
      then \<exists>day. day_of env r = Inr day \<and>
             fill_dict env column results (AList.update day (the v) d) = Inr m
      else fill_dict env column results d = Inr m"
    by blast
  show ?case
  proof (cases "truthy v")
    case True
    with step obtain day where day: "day_of env r = Inr day"
      and rest: "fill_dict env column results (AList.update day (the v) d) = Inr m"
      by auto
    have "\<And>x. counted env column r x \<longleftrightarrow> x = day"
      using v True day by (auto simp: counted_def truthy_iff)
    then show ?thesis
      using Cons.IH [OF rest] by (auto simp: dom_update)
  next
    case False
    with step have rest: "fill_dict env column results d = Inr m"
      by simp
    have "\<And>x. \<not> counted env column r x"
      using v False by (auto simp: counted_def truthy_iff)
    then show ?thesis
      using Cons.IH [OF rest] by auto
  qed
qed

lemma set_update_subset: "set (AList.update k v al) \<subseteq> insert (k, v) (set al)"
  by (induction al) auto

lemma fill_dict_nonzero:
  "fill_dict env column results d = Inr m \<Longrightarrow> \<forall>(k, x)\<in>set d. x \<noteq> 0 \<Longrightarrow>
   \<forall>(k, x)\<in>set m. x \<noteq> 0"
proof (induction results arbitrary: d)
  case Nil
  then show ?case by simp
next
  case (Cons r results)
  from fill_dict_step [OF Cons.prems(1)] obtain v where
    step: "if truthy v
      then \<exists>day. day_of env r = Inr day \<and>
             fill_dict env column results (AList.update day (the v) d) = Inr m
      else fill_dict env column results d = Inr m"
    by blast
  show ?case
  proof (cases "truthy v")
    case True
    with step obtain day where
      rest: "fill_dict env column results (AList.update day (the v) d) = Inr m"
      by auto
    from True have "the v \<noteq> 0"
      by (cases v) auto
    then have "\<forall>(k, x)\<in>set (AList.update day (the v) d). x \<noteq> 0"
      using set_update_subset [of day "the v" d] Cons.prems(2) by auto
    then show ?thesis
      using Cons.IH [OF rest] by simp
  next
    case False
    with step Cons show ?thesis by simp
  qed
qed

lemma fill_dict_other:
  "fill_dict env column results d = Inr m \<Longrightarrow> \<forall>r\<in>set results. \<not> counted env column r day \<Longrightarrow>
   map_of m day = map_of d day"
proof (induction results arbitrary: d)
  case Nil
  then show ?case by simp
next
  case (Cons r results)
  from fill_dict_step [OF Cons.prems(1)] obtain v where v: "getitem (columns r) column = Inr v" and
    step: "if truthy v
      then \<exists>day. day_of env r = Inr day \<and>
             fill_dict env column results (AList.update day (the v) d) = Inr m
      else fill_dict env column results d = Inr m"
    by blast
  show ?case
  proof (cases "truthy v")
    case True
    with step obtain day' where day': "day_of env r = Inr day'"
      and rest: "fill_dict env column results (AList.update day' (the v) d) = Inr m"
      by auto
    have "day' \<noteq> day"
      using Cons.prems(2) v True day' by (auto simp: counted_def truthy_iff)
    then show ?thesis
      using Cons.IH [OF rest] Cons.prems(2) by (simp add: update_conv')
  next
    case False
    with step Cons show ?thesis by simp
  qed
qed

lemma fill_dict_value:
  "fill_dict env column results d = Inr m \<Longrightarrow> distinct (map (day_of env) results) \<Longrightarrow>
   r \<in> set results \<Longrightarrow> day_of env r = Inr day \<Longrightarrow> getitem (columns r) column = Inr v \<Longrightarrow>
   map_of m day = (if truthy v then v else map_of d day)"
proof (induction results arbitrary: d)
  case Nil
  then show ?case by simp
next
  case (Cons r0 results)
  from fill_dict_step [OF Cons.prems(1)] obtain v0 where
    v0: "getitem (columns r0) column = Inr v0" and
    step: "if truthy v0
      then \<exists>day. day_of env r0 = Inr day \<and>
             fill_dict env column results (AList.update day (the v0) d) = Inr m
      else fill_dict env column results d = Inr m"
    by blast
  have "day_of env r0 \<notin> day_of env ` set results"
    using Cons.prems(2) by simp
  then have others: "\<forall>r'\<in>set results. day_of env r' \<noteq> day_of env r0"
    by (metis imageI)
  show ?case
  proof (cases "r \<in> set results")
    case True
    then have ne: "day_of env r0 \<noteq> Inr day"
      using others Cons.prems(4) by auto
    have dist: "distinct (map (day_of env) results)"
      using Cons.prems(2) by simp
    show ?thesis
    proof (cases "truthy v0")
      case t: True
      with step obtain day0 where day0: "day_of env r0 = Inr day0"
        and rest: "fill_dict env column results (AList.update day0 (the v0) d) = Inr m"
        by auto
      have "day0 \<noteq> day" using ne day0 by simp
      then show ?thesis
        using Cons.IH [OF rest dist True Cons.prems(4,5)] by (simp add: update_conv')
    next
      case False
      with step have rest: "fill_dict env column results d = Inr m" by simp
      show ?thesis
        using Cons.IH [OF rest dist True Cons.prems(4,5)] .
    qed
  next
    case False
    then have r: "r = r0" using Cons.prems(3) by simp
    have none: "\<forall>r'\<in>set results. \<not> counted env column r' day"
      using others Cons.prems(4) r by (auto simp: counted_def split: sum.splits)
    show ?thesis
    proof (cases "truthy v")
      case True
      with step v0 r Cons.prems(4,5) have
        rest: "fill_dict env column results (AList.update day (the v) d) = Inr m"
        by auto
      from True have "Some (the v) = v"
        by (cases v) auto
      then show ?thesis
        using fill_dict_other [OF rest none] True by (simp add: update_conv')
    next
      case False
      with step v0 r Cons.prems(5) have rest: "fill_dict env column results d = Inr m"
        by auto
      show ?thesis
        using fill_dict_other [OF rest none] False by simp
    qed
  qed
qed

lemma fill_dict_returns:
  "\<forall>r\<in>set results. \<exists>v. getitem (columns r) column = Inr v
                          \<and> (truthy v \<longrightarrow> \<not> isl (day_of env r)) \<Longrightarrow>
   \<exists>m. fill_dict env column results d = Inr m"
proof (induction results arbitrary: d)
  case Nil
  then show ?case by simp
next
  case (Cons r results)
  then obtain v where v: "getitem (columns r) column = Inr v"
    and t: "truthy v \<longrightarrow> \<not> isl (day_of env r)"
    by auto
  show ?case
  proof (cases "truthy v")
    case True
    with t obtain day where "day_of env r = Inr day"
      by (cases "day_of env r") auto
    then show ?thesis
      using v True Cons by (simp add: day_of_def)
  next
    case False
    then show ?thesis using v Cons by simp
  qed
qed

lemma query_range_ok:
  assumes "1 \<le> days" "days \<le> ordinal (utcnow env)" "ordinal (utcnow env) < MAXORDINAL"
  shows "query_range env days =
           Inr (\<lparr>ordinal = ordinal (utcnow env) - (days - 1), microsecond = 0\<rparr>,
                \<lparr>ordinal = ordinal (utcnow env) + 1, microsecond = 0\<rparr>)"
proof -
  have "days - 1 \<le> 999999999"
    using assms by (simp add: MAXORDINAL_def)
  then show ?thesis
    using assms
    by (simp add: query_range_def timedelta_def minus_days_def plus_days_def midnight_def Let_def)
qed

lemma query_range_overflow:
  assumes "ordinal (utcnow env) < days \<or> MAXORDINAL \<le> ordinal (utcnow env)"
  shows "query_range env days = Inl OverflowError"
  using assms
  by (auto simp: query_range_def timedelta_def minus_days_def plus_days_def midnight_def
      Let_def)

lemma locked_tokens_query_two_level:
  "locked_tokens_query b e =
     per_day ''SUM(locked_stake)''
       (last_per_participant_per_day
          ''staker_address, current_period, LAST(locked_stake) AS locked_stake'' b e)"
  by (simp add: locked_tokens_query_def per_day_def last_per_participant_per_day_def quoted_def)

lemma series_properties:
  assumes "fill_dict env column results [] = Inr m"
  shows "(\<forall>day. day \<in> fst ` set m \<longleftrightarrow> (\<exists>r\<in>set results. counted env column r day))
       \<and> (\<forall>(day, x)\<in>set m. x \<noteq> 0)
       \<and> (distinct (map (day_of env) results) \<longrightarrow>
            (\<forall>r\<in>set results. \<forall>day v.
               day_of env r = Inr day \<and> getitem (columns r) column = Inr v \<longrightarrow>
               map_of m day = (if v = None \<or> v = Some 0 then None else v)))"
proof (intro conjI allI impI ballI)
  fix day
  show "day \<in> fst ` set m \<longleftrightarrow> (\<exists>r\<in>set results. counted env column r day)"
    using fill_dict_keys [OF assms] by auto
next
  fix p assume p: "p \<in> set m"
  have "\<forall>(k, x)\<in>set m. x \<noteq> 0"
    using fill_dict_nonzero [OF assms] by simp
  with p show "case p of (day, x) \<Rightarrow> x \<noteq> 0"
    by auto
next
  fix r day v
  assume "distinct (map (day_of env) results)" "r \<in> set results"
     "day_of env r = Inr day \<and> getitem (columns r) column = Inr v"
  then show "map_of m day = (if v = None \<or> v = Some 0 then None else v)"
    using fill_dict_value [OF assms, of r day v] by (auto simp: truthy_iff)
qed

lemma historical_locked_tokens_parts:
  assumes "get_historical_locked_tokens_over_range env days = Inr m"
  shows "\<exists>b e results. query_range env days = Inr (b, e)
     \<and> query env (locked_tokens_query (rfc3339 env b) (rfc3339 env e)) = Inr results
     \<and> fill_dict env ''sum'' results [] = Inr m"
proof (cases "query_range env days")
  case (Inl x)
  then show ?thesis
    using assms by (simp add: get_historical_locked_tokens_over_range_def)
next
  case (Inr be)
  obtain b e where be: "be = (b, e)" by (cases be)
  show ?thesis
  proof (cases "query env (locked_tokens_query (rfc3339 env b) (rfc3339 env e))")
    case (Inl x)
    then show ?thesis
      using assms Inr be by (simp add: get_historical_locked_tokens_over_range_def)
  next
    case results: (Inr results)
    then show ?thesis
      using assms Inr be by (simp add: get_historical_locked_tokens_over_range_def)
  qed
qed

lemma historical_num_stakers_parts:
  assumes "get_historical_num_stakers_over_range env days = Inr n"
  shows "\<exists>b e results. query_range env days = Inr (b, e)
     \<and> query env (num_stakers_query (rfc3339 env b) (rfc3339 env e)) = Inr results
     \<and> fill_dict env ''count'' results [] = Inr n"
proof (cases "query_range env days")
  case (Inl x)
  then show ?thesis
    using assms by (simp add: get_historical_num_stakers_over_range_def)
next
  case (Inr be)
  obtain b e where be: "be = (b, e)" by (cases be)
  show ?thesis
  proof (cases "query env (num_stakers_query (rfc3339 env b) (rfc3339 env e))")
    case (Inl x)
    then show ?thesis
      using assms Inr be by (simp add: get_historical_num_stakers_over_range_def)
  next
    case results: (Inr results)
    then show ?thesis
      using assms Inr be by (simp add: get_historical_num_stakers_over_range_def)
  qed
qed

lemma example_query_range:
  "query_range example_db 3 =
     Inr (\<lparr>ordinal = 739922, microsecond = 0\<rparr>, \<lparr>ordinal = 739925, microsecond = 0\<rparr>)"
  by (simp add: query_range_def timedelta_def minus_days_def plus_days_def midnight_def
      example_db_def MAXORDINAL_def Let_def)

lemma example_locked_tokens:
  "get_historical_locked_tokens_over_range example_db 3 =
     Inr [(\<lparr>ordinal = 739922, microsecond = 0\<rparr>, 30000)]"
  unfolding get_historical_locked_tokens_over_range_def example_query_range
  by (simp add: example_db_def locked_tokens_query_def example_sum_points_def getitem_def)

lemma example_num_stakers:
  "get_historical_num_stakers_over_range example_db 3 =
     Inr [(\<lparr>ordinal = 739922, microsecond = 0\<rparr>, 2),
          (\<lparr>ordinal = 739924, microsecond = 0\<rparr>, 1)]"
  unfolding get_historical_num_stakers_over_range_def example_query_range
  by (simp add: example_db_def num_stakers_query_def example_count_points_def getitem_def)

subsection \<open>Empty days are left out\<close>

text \<open>
  Claim C4. Whatever \<open>days\<close> is and whatever points the store returns, a mapping returned
  by \<^verbatim>\<open>get_historical_locked_tokens_over_range\<close> has an entry for a day exactly if some
  returned point of that day has a \<^verbatim>\<open>sum\<close> that is neither null nor zero, and a mapping
  returned by \<^verbatim>\<open>get_historical_num_stakers_over_range\<close> has an entry for a day exactly if
  some returned point of that day has a \<^verbatim>\<open>count\<close> that is neither null nor zero. No
  entry has the value 0. When the store returns one point per day, the entry of a day is
  that day's aggregate, and a day whose aggregate is null or zero has no entry.
  (\<open>fill_dict_returns\<close> above says when a mapping is returned.)
\<close>

theorem historical_series_omit_empty_days:
  "(get_historical_locked_tokens_over_range env days = Inr m \<longrightarrow>
      (\<exists>b e results.
         query_range env days = Inr (b, e)
         \<and> query env (locked_tokens_query (rfc3339 env b) (rfc3339 env e)) = Inr results
         \<and> (\<forall>day. day \<in> fst ` set m \<longleftrightarrow> (\<exists>r\<in>set results. counted env ''sum'' r day))
         \<and> (\<forall>(day, x)\<in>set m. x \<noteq> 0)
         \<and> (distinct (map (day_of env) results) \<longrightarrow>
              (\<forall>r\<in>set results. \<forall>day v.
                 day_of env r = Inr day \<and> getitem (columns r) ''sum'' = Inr v \<longrightarrow>
                 map_of m day = (if v = None \<or> v = Some 0 then None else v)))))
   \<and> (get_historical_num_stakers_over_range env days = Inr n \<longrightarrow>
      (\<exists>b e results.
         query_range env days = Inr (b, e)
         \<and> query env (num_stakers_query (rfc3339 env b) (rfc3339 env e)) = Inr results
         \<and> (\<forall>day. day \<in> fst ` set n \<longleftrightarrow> (\<exists>r\<in>set results. counted env ''count'' r day))
         \<and> (\<forall>(day, x)\<in>set n. x \<noteq> 0)
         \<and> (distinct (map (day_of env) results) \<longrightarrow>
              (\<forall>r\<in>set results. \<forall>day v.
                 day_of env r = Inr day \<and> getitem (columns r) ''count'' = Inr v \<longrightarrow>
                 map_of n day = (if v = None \<or> v = Some 0 then None else v)))))"
proof (intro conjI impI)
  assume "get_historical_locked_tokens_over_range env days = Inr m"
  from historical_locked_tokens_parts [OF this] obtain b e results where
    "query_range env days = Inr (b, e)"
    "query env (locked_tokens_query (rfc3339 env b) (rfc3339 env e)) = Inr results"
    "fill_dict env ''sum'' results [] = Inr m"
    by blast
  then show "\<exists>b e results.
         query_range env days = Inr (b, e)
         \<and> query env (locked_tokens_query (rfc3339 env b) (rfc3339 env e)) = Inr results
         \<and> (\<forall>day. day \<in> fst ` set m \<longleftrightarrow> (\<exists>r\<in>set results. counted env ''sum'' r day))
         \<and> (\<forall>(day, x)\<in>set m. x \<noteq> 0)
         \<and> (distinct (map (day_of env) results) \<longrightarrow>
              (\<forall>r\<in>set results. \<forall>day v.
                 day_of env r = Inr day \<and> getitem (columns r) ''sum'' = Inr v \<longrightarrow>
                 map_of m day = (if v = None \<or> v = Some 0 then None else v)))"
    using series_properties [of env "''sum''" results m] by blast
next
  assume "get_historical_num_stakers_over_range env days = Inr n"
  from historical_num_stakers_parts [OF this] obtain b e results where
    "query_range env days = Inr (b, e)"
    "query env (num_stakers_query (rfc3339 env b) (rfc3339 env e)) = Inr results"
    "fill_dict env ''count'' results [] = Inr n"
    by blast
  then show "\<exists>b e results.
         query_range env days = Inr (b, e)
         \<and> query env (num_stakers_query (rfc3339 env b) (rfc3339 env e)) = Inr results
         \<and> (\<forall>day. day \<in> fst ` set n \<longleftrightarrow> (\<exists>r\<in>set results. counted env ''count'' r day))
         \<and> (\<forall>(day, x)\<in>set n. x \<noteq> 0)
         \<and> (distinct (map (day_of env) results) \<longrightarrow>
              (\<forall>r\<in>set results. \<forall>day v.
                 day_of env r = Inr day \<and> getitem (columns r) ''count'' = Inr v \<longrightarrow>
                 map_of n day = (if v = None \<or> v = Some 0 then None else v)))"
    using series_properties [of env "''count''" results n] by blast
qed

theorem historical_series_omit_empty_days_witness:
  "get_historical_locked_tokens_over_range example_db 3 =
     Inr [(\<lparr>ordinal = 739922, microsecond = 0\<rparr>, 30000)]
   \<and> get_historical_num_stakers_over_range example_db 3 =
     Inr [(\<lparr>ordinal = 739922, microsecond = 0\<rparr>, 2),
          (\<lparr>ordinal = 739924, microsecond = 0\<rparr>, 1)]
   \<and> (30000::int) \<noteq> 0
   \<and> counted example_db ''sum'' (example_sum_points ! 0) \<lparr>ordinal = 739922, microsecond = 0\<rparr>
   \<and> \<not> counted example_db ''sum'' (example_sum_points ! 1) \<lparr>ordinal = 739923, microsecond = 0\<rparr>
   \<and> \<not> counted example_db ''sum'' (example_sum_points ! 2) \<lparr>ordinal = 739924, microsecond = 0\<rparr>
   \<and> counted example_db ''count'' (example_count_points ! 2) \<lparr>ordinal = 739924, microsecond = 0\<rparr>"
proof -
  define m where "m = [(\<lparr>ordinal = 739922, microsecond = 0\<rparr>, 30000::int)]"
  define n where "n = [(\<lparr>ordinal = 739922, microsecond = 0\<rparr>, 2::int),
          (\<lparr>ordinal = 739924, microsecond = 0\<rparr>, 1)]"
  have m: "get_historical_locked_tokens_over_range example_db 3 = Inr m"
    and n: "get_historical_num_stakers_over_range example_db 3 = Inr n"
    by (simp_all add: m_def n_def example_locked_tokens example_num_stakers)
  from conjunct1 [OF historical_series_omit_empty_days [of example_db 3 m n]] m
  have "\<exists>b e results.
         query_range example_db 3 = Inr (b, e)
         \<and> query example_db (locked_tokens_query (rfc3339 example_db b) (rfc3339 example_db e)) =
             Inr results
         \<and> (\<forall>day. day \<in> fst ` set m \<longleftrightarrow> (\<exists>r\<in>set results. counted example_db ''sum'' r day))
         \<and> (\<forall>(day, x)\<in>set m. x \<noteq> 0)
         \<and> (distinct (map (day_of example_db) results) \<longrightarrow>
              (\<forall>r\<in>set results. \<forall>day v.
                 day_of example_db r = Inr day \<and> getitem (columns r) ''sum'' = Inr v \<longrightarrow>
                 map_of m day = (if v = None \<or> v = Some 0 then None else v)))"
    by (rule mp)
  then have "\<forall>(day, x)\<in>set m. x \<noteq> 0"
    by (elim exE conjE)
  then have v: "(30000::int) \<noteq> 0"
    by (simp add: m_def)
  have c: "counted example_db ''sum'' (example_sum_points ! 0) \<lparr>ordinal = 739922, microsecond = 0\<rparr>"
    "\<not> counted example_db ''sum'' (example_sum_points ! 1) \<lparr>ordinal = 739923, microsecond = 0\<rparr>"
    "\<not> counted example_db ''sum'' (example_sum_points ! 2) \<lparr>ordinal = 739924, microsecond = 0\<rparr>"
    "counted example_db ''count'' (example_count_points ! 2) \<lparr>ordinal = 739924, microsecond = 0\<rparr>"
    by (simp_all add: counted_def day_of_def getitem_def example_db_def
        example_sum_points_def example_count_points_def)
  show ?thesis
    using m n v c by (simp add: m_def n_def)
qed

subsection \<open>The range and shape of the locked-stake query\<close>

text \<open>
  Claim C5 says that the query is issued for every \<open>days\<close> of at least 1. Python dates
  start at 0001-01-01: asked on 2026-11-04 for a million days, the subtraction
  \<^verbatim>\<open>range_end - timedelta(days=days-1)\<close> raises OverflowError and no query is issued.
\<close>

theorem locked_tokens_query_overflow:
  "(1::int) \<le> 1000000
   \<and> get_historical_locked_tokens_over_range example_db 1000000 = Inl OverflowError"
  by (simp add: get_historical_locked_tokens_over_range_def query_range_def timedelta_def
      minus_days_def plus_days_def midnight_def example_db_def Let_def)

text \<open>
  Claim C5, amended. For every \<open>days\<close> from 1 up to today's day number (counted from
  0001-01-01), today being before 9999-12-31, the query goes from midnight of the day
  \<open>days - 1\<close> days before today (inclusive) to midnight of tomorrow (exclusive), and the
  text sent to the store is the two-level aggregation: inside, the last \<^verbatim>\<open>locked_stake\<close>
  per \<^verbatim>\<open>staker_address\<close> and per day; outside, the sum of those per day. What the
  function returns is what the loop makes of the store's answer to exactly this text.
  For every \<open>days\<close> greater than today's day number, computing \<^verbatim>\<open>range_begin\<close> raises
  OverflowError and no query is issued: the function ends with OverflowError whatever
  the store would answer. On 9999-12-31 the same holds for every \<open>days\<close>, because
  \<^verbatim>\<open>range_end + timedelta(days=1)\<close> is computed while the query text is built.
\<close>

theorem locked_tokens_query_range:
  "(1 \<le> days \<and> days \<le> ordinal (utcnow env) \<and> ordinal (utcnow env) < MAXORDINAL \<longrightarrow>
      query_range env days =
        Inr (\<lparr>ordinal = ordinal (utcnow env) - (days - 1), microsecond = 0\<rparr>,
             \<lparr>ordinal = ordinal (utcnow env) + 1, microsecond = 0\<rparr>)
      \<and> get_historical_locked_tokens_over_range env days =
          and_then
            (query env
               (per_day ''SUM(locked_stake)''
                  (last_per_participant_per_day
                     ''staker_address, current_period, LAST(locked_stake) AS locked_stake''
                     (rfc3339 env \<lparr>ordinal = ordinal (utcnow env) - (days - 1), microsecond = 0\<rparr>)
                     (rfc3339 env \<lparr>ordinal = ordinal (utcnow env) + 1, microsecond = 0\<rparr>))))
            (\<lambda>results. fill_dict env ''sum'' results []))
   \<and> (ordinal (utcnow env) < days \<or> MAXORDINAL \<le> ordinal (utcnow env) \<longrightarrow>
      query_range env days = Inl OverflowError
      \<and> get_historical_locked_tokens_over_range env days = Inl OverflowError
      \<and> get_historical_locked_tokens_over_range (env\<lparr>query := q\<rparr>) days = Inl OverflowError)"
proof -
  have in_range: "query_range env days =
        Inr (\<lparr>ordinal = ordinal (utcnow env) - (days - 1), microsecond = 0\<rparr>,
             \<lparr>ordinal = ordinal (utcnow env) + 1, microsecond = 0\<rparr>)
      \<and> get_historical_locked_tokens_over_range env days =
          and_then
            (query env
               (per_day ''SUM(locked_stake)''
                  (last_per_participant_per_day
                     ''staker_address, current_period, LAST(locked_stake) AS locked_stake''
                     (rfc3339 env \<lparr>ordinal = ordinal (utcnow env) - (days - 1), microsecond = 0\<rparr>)
                     (rfc3339 env \<lparr>ordinal = ordinal (utcnow env) + 1, microsecond = 0\<rparr>))))
            (\<lambda>results. fill_dict env ''sum'' results [])"
    if "1 \<le> days \<and> days \<le> ordinal (utcnow env) \<and> ordinal (utcnow env) < MAXORDINAL"
    using query_range_ok [of days env] that
    by (simp add: get_historical_locked_tokens_over_range_def locked_tokens_query_two_level)
  have out_of_range: "query_range env days = Inl OverflowError
      \<and> get_historical_locked_tokens_over_range env days = Inl OverflowError
      \<and> get_historical_locked_tokens_over_range (env\<lparr>query := q\<rparr>) days = Inl OverflowError"
    if "ordinal (utcnow env) < days \<or> MAXORDINAL \<le> ordinal (utcnow env)"
  proof -
    have r: "query_range env days = Inl OverflowError"
      using query_range_overflow [OF that] .
    moreover have "query_range (env\<lparr>query := q\<rparr>) days = query_range env days"
      by (simp add: query_range_def)
    ultimately show ?thesis
      by (simp add: get_historical_locked_tokens_over_range_def)
  qed
  from in_range out_of_range show ?thesis
    by blast
qed

theorem locked_tokens_query_range_witness:
  "(1::int) \<le> 3
   \<and> query_range example_db 3 =
       Inr (\<lparr>ordinal = 739922, microsecond = 0\<rparr>, \<lparr>ordinal = 739925, microsecond = 0\<rparr>)
   \<and> get_historical_locked_tokens_over_range example_db 3 =
       and_then
         (query example_db
            (per_day ''SUM(locked_stake)''
               (last_per_participant_per_day
                  ''staker_address, current_period, LAST(locked_stake) AS locked_stake''
                  ''739922'' ''739925'')))
         (\<lambda>results. fill_dict example_db ''sum'' results [])
   \<and> query_range example_db 739925 = Inl OverflowError
   \<and> get_historical_locked_tokens_over_range example_db 739925 = Inl OverflowError"
proof -
  have today: "ordinal (utcnow example_db) = 739924"
    by (simp add: example_db_def)
  have digits: "str_int 739922 = ''739922''" "str_int 739925 = ''739925''"
    by (simp_all add: str_int_def str_nat.simps digit_char_def)
  have rendered: "rfc3339 example_db \<lparr>ordinal = 739922, microsecond = 0\<rparr> = ''739922''"
      "rfc3339 example_db \<lparr>ordinal = 739925, microsecond = 0\<rparr> = ''739925''"
    using digits by (simp_all add: example_db_def)
  have within: "query_range example_db 3 =
       Inr (\<lparr>ordinal = 739922, microsecond = 0\<rparr>, \<lparr>ordinal = 739925, microsecond = 0\<rparr>)
   \<and> get_historical_locked_tokens_over_range example_db 3 =
       and_then
         (query example_db
            (per_day ''SUM(locked_stake)''
               (last_per_participant_per_day
                  ''staker_address, current_period, LAST(locked_stake) AS locked_stake''
                  ''739922'' ''739925'')))
         (\<lambda>results. fill_dict example_db ''sum'' results [])"
    using locked_tokens_query_range [of 3 example_db]
    by (simp add: today rendered MAXORDINAL_def)
  have beyond: "query_range example_db 739925 = Inl OverflowError
   \<and> get_historical_locked_tokens_over_range example_db 739925 = Inl OverflowError"
    using locked_tokens_query_range [of 739925 example_db]
    by (simp add: today)
  from within beyond show ?thesis
    by simp
qed

end
